theory Spec2Isabelle
  imports Complex_Main
begin

unbundle bit_operations_syntax

section \<open>Python values used by ujlaser/lasercontrol.py\<close>

text \<open>
  The module runs on Python 3 (setup.py: \<^verbatim>\<open>Programming Language :: Python :: 3\<close>, the tests
  import \<^verbatim>\<open>unittest.mock\<close>). The values that flow through the \<^verbatim>\<open>Laser\<close> class are
  \<^verbatim>\<open>None\<close>, booleans, unbounded integers, floats, \<^verbatim>\<open>str\<close> and \<^verbatim>\<open>bytes\<close>.

  A \<^verbatim>\<open>str\<close> and a \<^verbatim>\<open>bytes\<close> object are both lists of \<^typ>\<open>char\<close> (code points 0 to 255;
  higher code points of a \<^verbatim>\<open>str\<close> are not represented). A finite float is represented by
  the rational number it denotes; every conversion and division rounds its exact result
  to the nearest double, ties to even, as the interpreter does (\<open>round_ratio\<close> below). The
  sign of zero is not modelled. The infinities and NaN are values of their own. The
  limits are those of CPython 3.11: 4300 digits for the conversion between \<^verbatim>\<open>int\<close> and
  \<^verbatim>\<open>str\<close>.
\<close>

type_synonym bytes = string

datatype pyfloat = Finite rat | PosInf | NegInf | NaN

datatype pyval =
    PNone
  | PBool bool
  | PInt int
  | PFloat pyfloat
  | PStr string
  | PBytes bytes

text \<open>
  Exceptions. \<^verbatim>\<open>LaserCommandError\<close> is the module's own class; the others are raised by
  the interpreter. Only the messages written in the source are kept; an exception raised
  by a builtin carries the name of the builtin or of the attribute.
  \<^verbatim>\<open>UnicodeDecodeError\<close> and \<^verbatim>\<open>UnicodeEncodeError\<close> are subclasses of \<^verbatim>\<open>ValueError\<close> in
  Python and \<^verbatim>\<open>UnboundLocalError\<close> of \<^verbatim>\<open>NameError\<close>; none of them is a
  \<^verbatim>\<open>LaserCommandError\<close>.
\<close>

datatype error =
    LaserCommandError string
  | ConnectionError string
  | ValueError string
  | TypeError string
  | AttributeError string
  | UnboundLocalError string
  | IndexError
  | ZeroDivisionError
  | OverflowError
  | UnicodeEncodeError
  | UnicodeDecodeError

definition CR :: char where "CR = CHR 0x0D"
definition LF :: char where "LF = CHR 0x0A"

text \<open>The success token \<^verbatim>\<open>b"ok\r\n"\<close>.\<close>

definition ok_token :: bytes where
  "ok_token = ''ok'' @ [CR, LF]"

subsection \<open>Numbers\<close>

text \<open>A number is an int (a bool counts as the int 0 or 1) or a float.\<close>

datatype pynum = NI int | NF pyfloat

fun as_num :: "pyval \<Rightarrow> pynum option" where
  "as_num (PBool b) = Some (NI (if b then 1 else 0))"
| "as_num (PInt i) = Some (NI i)"
| "as_num (PFloat f) = Some (NF f)"
| "as_num _ = None"

text \<open>Comparison of an int with a float is exact in Python, as it is here.\<close>

fun num_val :: "pynum \<Rightarrow> pyfloat" where
  "num_val (NI i) = Finite (of_int i)"
| "num_val (NF f) = f"

fun float_eq :: "pyfloat \<Rightarrow> pyfloat \<Rightarrow> bool" where
  "float_eq (Finite a) (Finite b) = (a = b)"
| "float_eq PosInf PosInf = True"
| "float_eq NegInf NegInf = True"
| "float_eq _ _ = False"

fun float_lt :: "pyfloat \<Rightarrow> pyfloat \<Rightarrow> bool" where
  "float_lt (Finite a) (Finite b) = (a < b)"
| "float_lt NegInf (Finite b) = True"
| "float_lt NegInf PosInf = True"
| "float_lt (Finite a) PosInf = True"
| "float_lt _ _ = False"

definition float_le :: "pyfloat \<Rightarrow> pyfloat \<Rightarrow> bool" where
  "float_le a b = (float_lt a b \<or> float_eq a b)"

text \<open>
  \<^verbatim>\<open>a == b\<close>: numbers compare by value; a \<^verbatim>\<open>str\<close> equals only a \<^verbatim>\<open>str\<close>, a \<^verbatim>\<open>bytes\<close>
  only a \<^verbatim>\<open>bytes\<close>; values of different kinds are unequal. In particular an int never
  equals a \<^verbatim>\<open>bytes\<close> object.
\<close>

fun py_eq :: "pyval \<Rightarrow> pyval \<Rightarrow> bool" where
  "py_eq PNone PNone = True"
| "py_eq (PStr a) (PStr b) = (a = b)"
| "py_eq (PBytes a) (PBytes b) = (a = b)"
| "py_eq a b =
     (case (as_num a, as_num b) of
        (Some x, Some y) \<Rightarrow> float_eq (num_val x) (num_val y)
      | _ \<Rightarrow> False)"

text \<open>
  The ordering comparisons. Every comparison of the module has a number on its right-hand
  side (a literal, \<^verbatim>\<open>fire_duration\<close>); against a number, anything that is not a number
  raises \<^verbatim>\<open>TypeError\<close>.
\<close>

definition py_cmp :: "(pyfloat \<Rightarrow> pyfloat \<Rightarrow> bool) \<Rightarrow> pyval \<Rightarrow> pyval \<Rightarrow> error + bool" where
  "py_cmp rel a b =
     (case (as_num a, as_num b) of
        (Some x, Some y) \<Rightarrow> Inr (rel (num_val x) (num_val y))
      | _ \<Rightarrow> Inl (TypeError ''comparison''))"

definition py_lt :: "pyval \<Rightarrow> pyval \<Rightarrow> error + bool" where
  "py_lt = py_cmp float_lt"

definition py_le :: "pyval \<Rightarrow> pyval \<Rightarrow> error + bool" where
  "py_le = py_cmp float_le"

definition py_gt :: "pyval \<Rightarrow> pyval \<Rightarrow> error + bool" where
  "py_gt = py_cmp (\<lambda>x y. float_lt y x)"

definition py_ge :: "pyval \<Rightarrow> pyval \<Rightarrow> error + bool" where
  "py_ge = py_cmp (\<lambda>x y. float_le y x)"

text \<open>Truth value of an object (\<^verbatim>\<open>not response\<close>, \<^verbatim>\<open>not code\<close>).\<close>

fun py_truthy :: "pyval \<Rightarrow> bool" where
  "py_truthy PNone = False"
| "py_truthy (PBool b) = b"
| "py_truthy (PInt i) = (i \<noteq> 0)"
| "py_truthy (PFloat f) = (f \<noteq> Finite 0)"
| "py_truthy (PStr s) = (s \<noteq> [])"
| "py_truthy (PBytes s) = (s \<noteq> [])"

text \<open>
  Rounding to a double. \<open>ilog2 n\<close> is the position of the highest bit of \<open>n \<ge> 1\<close>;
  \<open>pow2 k\<close> is \<open>2\<close> to the power \<open>k\<close>, for any integer \<open>k\<close>.
\<close>

fun ilog2 :: "nat \<Rightarrow> nat" where
  "ilog2 n = (if n < 2 then 0 else Suc (ilog2 (n div 2)))"

declare ilog2.simps [simp del]

definition pow2 :: "int \<Rightarrow> rat" where
  "pow2 k = (if 0 \<le> k then 2 ^ nat k else 1 / 2 ^ nat (- k))"

definition round_half_even :: "rat \<Rightarrow> int" where
  "round_half_even x =
     (let f = \<lfloor>x\<rfloor>; r = x - of_int f
      in if r < 1 / 2 then f
         else if 1 / 2 < r then f + 1
         else if even f then f else f + 1)"

text \<open>
  \<open>round_ratio n d\<close>, for \<open>d > 0\<close>, is the double nearest to \<open>n / d\<close>: with \<open>k\<close> the
  binary exponent of \<open>|n / d|\<close>, the quotient is rounded to a multiple of \<open>2 ^ (k - 52)\<close>
  (53 significant bits), or of \<open>2 ^ - 1074\<close> in the subnormal range; a result of
  \<open>2 ^ 1024\<close> or more is an infinity.
\<close>

definition round_ratio :: "int \<Rightarrow> int \<Rightarrow> pyfloat" where
  "round_ratio n d =
     (if n = 0 then Finite 0
      else
        (let a = (of_int \<bar>n\<bar> / of_int d :: rat);
             k0 = int (ilog2 (nat \<bar>n\<bar>)) - int (ilog2 (nat d));
             k = (if pow2 k0 \<le> a then k0 else k0 - 1);
             e = max (k - 52) (- 1074);
             m = round_half_even (a / pow2 e);
             v = of_int m * pow2 e
         in if pow2 1024 \<le> v then (if 0 < n then PosInf else NegInf)
            else Finite (if 0 < n then v else - v)))"

definition round_double :: "rat \<Rightarrow> pyfloat" where
  "round_double q = (case quotient_of q of (n, d) \<Rightarrow> round_ratio n d)"

text \<open>
  An int converts to the nearest double, unless that is beyond the largest double: then
  \<^verbatim>\<open>OverflowError\<close>.
\<close>

definition int_to_float :: "int \<Rightarrow> error + pyfloat" where
  "int_to_float i =
     (case round_ratio i 1 of
        Finite v \<Rightarrow> Inr (Finite v)
      | _ \<Rightarrow> Inl OverflowError)"

text \<open>
  Float division with a non-zero divisor: the quotient of two finite floats is rounded,
  and overflows to an infinity without an exception.
\<close>

fun float_div :: "pyfloat \<Rightarrow> pyfloat \<Rightarrow> pyfloat" where
  "float_div NaN _ = NaN"
| "float_div _ NaN = NaN"
| "float_div (Finite a) (Finite b) = round_double (a / b)"
| "float_div (Finite a) _ = Finite 0"
| "float_div PosInf (Finite b) = (if 0 < b then PosInf else NegInf)"
| "float_div NegInf (Finite b) = (if 0 < b then NegInf else PosInf)"
| "float_div _ _ = NaN"

text \<open>
  \<^verbatim>\<open>a / b\<close> (true division). Two ints give the double nearest to the exact quotient, or
  \<^verbatim>\<open>OverflowError\<close>; with a float operand the int operand is converted first, then the
  divisor is tested for zero.
\<close>

definition py_truediv :: "pyval \<Rightarrow> pyval \<Rightarrow> error + pyval" where
  "py_truediv a b =
     (case (as_num a, as_num b) of
        (Some (NI x), Some (NI y)) \<Rightarrow>
          if y = 0 then Inl ZeroDivisionError
          else
            (case round_ratio (if 0 < y then x else - x) \<bar>y\<bar> of
               Finite v \<Rightarrow> Inr (PFloat (Finite v))
             | _ \<Rightarrow> Inl OverflowError)
      | (Some x, Some y) \<Rightarrow>
          (case (case x of NI i \<Rightarrow> int_to_float i | NF f \<Rightarrow> Inr f) of
             Inl e \<Rightarrow> Inl e
           | Inr fx \<Rightarrow>
               (case (case y of NI i \<Rightarrow> int_to_float i | NF f \<Rightarrow> Inr f) of
                  Inl e \<Rightarrow> Inl e
                | Inr fy \<Rightarrow>
                    if fy = Finite 0 then Inl ZeroDivisionError
                    else Inr (PFloat (float_div fx fy))))
      | _ \<Rightarrow> Inl (TypeError ''/''))"

subsection \<open>Text: whitespace, integer and float literals\<close>

text \<open>
  \<^verbatim>\<open>int\<close> and \<^verbatim>\<open>float\<close> strip whitespace from both ends of their argument: for a
  \<^verbatim>\<open>bytes\<close> object the bytes 9 to 13 and 32, for a \<^verbatim>\<open>str\<close> also the code points 133
  and 160 (the code points 28 to 31 are not stripped).
\<close>

definition bytes_space :: "char \<Rightarrow> bool" where
  "bytes_space c = (let n = (of_char c :: nat) in (9 \<le> n \<and> n \<le> 13) \<or> n = 32)"

definition str_space :: "char \<Rightarrow> bool" where
  "str_space c =
     (let n = (of_char c :: nat)
      in (9 \<le> n \<and> n \<le> 13) \<or> n = 32 \<or> n = 133 \<or> n = 160)"

definition strip :: "(char \<Rightarrow> bool) \<Rightarrow> string \<Rightarrow> string" where
  "strip sp s = rev (dropWhile sp (rev (dropWhile sp s)))"

definition is_digit :: "char \<Rightarrow> bool" where
  "is_digit c = (let n = (of_char c :: nat) in 48 \<le> n \<and> n \<le> 57)"

definition digit_val :: "char \<Rightarrow> nat" where
  "digit_val c = of_char c - 48"

text \<open>
  Underscores of a numeric literal: one underscore may stand between two digits, nowhere
  else. \<open>remove_underscores prev s\<close> removes them, or fails; \<open>prev\<close> is the character
  before \<open>s\<close>.
\<close>

fun remove_underscores :: "char \<Rightarrow> string \<Rightarrow> string option" where
  "remove_underscores prev [] = (if prev = CHR ''_'' then None else Some [])"
| "remove_underscores prev (c # cs) =
     (if c = CHR ''_'' then
        (if is_digit prev then remove_underscores c cs else None)
      else if prev = CHR ''_'' \<and> \<not> is_digit c then None
      else map_option ((#) c) (remove_underscores c cs))"

fun digits_value :: "nat \<Rightarrow> string \<Rightarrow> nat" where
  "digits_value acc [] = acc"
| "digits_value acc (c # cs) = digits_value (10 * acc + digit_val c) cs"

definition split_sign :: "string \<Rightarrow> bool \<times> string" where
  "split_sign s =
     (case s of
        [] \<Rightarrow> (False, [])
      | c # r \<Rightarrow> if c = CHR ''-'' then (True, r) else if c = CHR ''+'' then (False, r) else (False, s))"

text \<open>The limit on the digits of an int in a conversion from or to text.\<close>

definition max_str_digits :: nat where
  "max_str_digits = 4300"

text \<open>
  An integer literal in base 10: optional sign, then digits (with underscores), at most
  \<open>max_str_digits\<close> of them, leading zeros counted.
\<close>

definition parse_int :: "(char \<Rightarrow> bool) \<Rightarrow> string \<Rightarrow> int option" where
  "parse_int sp s =
     (let (neg, r) = split_sign (strip sp s)
      in case remove_underscores (CHR 0x00) r of
           None \<Rightarrow> None
         | Some ds \<Rightarrow>
             if ds \<noteq> [] \<and> list_all is_digit ds \<and> length ds \<le> max_str_digits
             then Some (if neg then - int (digits_value 0 ds) else int (digits_value 0 ds))
             else None)"

definition to_lower :: "char \<Rightarrow> char" where
  "to_lower c =
     (let n = (of_char c :: nat) in if 65 \<le> n \<and> n \<le> 90 then char_of (n + 32) else c)"

text \<open>The double nearest to \<open>m\<close> times \<open>10\<close> to the power \<open>e\<close>.\<close>

definition scale10 :: "int \<Rightarrow> int \<Rightarrow> pyfloat" where
  "scale10 m e = (if 0 \<le> e then round_ratio (m * 10 ^ nat e) 1 else round_ratio m (10 ^ nat (- e)))"

text \<open>
  A float literal: optional sign, then \<^verbatim>\<open>inf\<close>, \<^verbatim>\<open>infinity\<close> or \<^verbatim>\<open>nan\<close> in any case, or
  digits with an optional fraction and an optional exponent; at least one digit in the
  mantissa, and nothing may follow. The value is rounded to the nearest double; a
  literal too large is an infinity.
\<close>

definition parse_exponent :: "string \<Rightarrow> int option" where
  "parse_exponent s =
     (case s of
        [] \<Rightarrow> Some 0
      | c # t \<Rightarrow>
          if c = CHR ''e'' \<or> c = CHR ''E'' then
            (let (neg, ds) = split_sign t
             in if ds \<noteq> [] \<and> list_all is_digit ds
                then Some (if neg then - int (digits_value 0 ds) else int (digits_value 0 ds))
                else None)
          else None)"

definition parse_float :: "(char \<Rightarrow> bool) \<Rightarrow> string \<Rightarrow> pyfloat option" where
  "parse_float sp s =
     (case remove_underscores (CHR 0x00) (strip sp s) of
        None \<Rightarrow> None
      | Some t \<Rightarrow>
          (let (neg, r) = split_sign t; low = map to_lower r
           in if low = ''inf'' \<or> low = ''infinity'' then Some (if neg then NegInf else PosInf)
              else if low = ''nan'' then Some NaN
              else
                (let ip = takeWhile is_digit r; r1 = dropWhile is_digit r;
                     fp = (case r1 of [] \<Rightarrow> [] | c # t1 \<Rightarrow>
                             if c = CHR ''.'' then takeWhile is_digit t1 else []);
                     r2 = (case r1 of [] \<Rightarrow> [] | c # t1 \<Rightarrow>
                             if c = CHR ''.'' then dropWhile is_digit t1 else r1)
                 in if ip = [] \<and> fp = [] then None
                    else case parse_exponent r2 of
                           None \<Rightarrow> None
                         | Some e \<Rightarrow>
                             (let m = int (digits_value 0 (ip @ fp))
                              in Some (scale10 (if neg then - m else m) (e - int (length fp)))))))"

text \<open>The text of a \<^verbatim>\<open>str\<close> or \<^verbatim>\<open>bytes\<close> argument, with its whitespace class.\<close>

fun literal_text :: "pyval \<Rightarrow> ((char \<Rightarrow> bool) \<times> string) option" where
  "literal_text (PStr s) = Some (str_space, s)"
| "literal_text (PBytes s) = Some (bytes_space, s)"
| "literal_text _ = None"

text \<open>\<^verbatim>\<open>int(x)\<close>: a float is truncated towards zero.\<close>

fun py_int :: "pyval \<Rightarrow> error + int" where
  "py_int PNone = Inl (TypeError ''int'')"
| "py_int (PBool b) = Inr (if b then 1 else 0)"
| "py_int (PInt i) = Inr i"
| "py_int (PFloat (Finite q)) = Inr (if 0 \<le> q then \<lfloor>q\<rfloor> else \<lceil>q\<rceil>)"
| "py_int (PFloat NaN) = Inl (ValueError ''int'')"
| "py_int (PFloat _) = Inl OverflowError"
| "py_int (PStr s) = (case parse_int str_space s of None \<Rightarrow> Inl (ValueError ''int'') | Some i \<Rightarrow> Inr i)"
| "py_int (PBytes s) = (case parse_int bytes_space s of None \<Rightarrow> Inl (ValueError ''int'') | Some i \<Rightarrow> Inr i)"

text \<open>\<^verbatim>\<open>float(x)\<close>.\<close>

fun py_float :: "pyval \<Rightarrow> error + pyfloat" where
  "py_float PNone = Inl (TypeError ''float'')"
| "py_float (PBool b) = Inr (Finite (if b then 1 else 0))"
| "py_float (PInt i) = int_to_float i"
| "py_float (PFloat f) = Inr f"
| "py_float (PStr s) = (case parse_float str_space s of None \<Rightarrow> Inl (ValueError ''float'') | Some f \<Rightarrow> Inr f)"
| "py_float (PBytes s) = (case parse_float bytes_space s of None \<Rightarrow> Inl (ValueError ''float'') | Some f \<Rightarrow> Inr f)"

subsection \<open>Rendering: \<^verbatim>\<open>str(x)\<close>\<close>

definition digit_char :: "nat \<Rightarrow> char" where
  "digit_char n = ''0123456789abcdef'' ! n"

fun digits10 :: "nat \<Rightarrow> string" where
  "digits10 n = (if n < 10 then [digit_char n] else digits10 (n div 10) @ [digit_char (n mod 10)])"

definition int_str :: "int \<Rightarrow> string" where
  "int_str i = (if i < 0 then CHR ''-'' # digits10 (nat (- i)) else digits10 (nat i))"

text \<open>The \<^verbatim>\<open>repr\<close> of a \<^verbatim>\<open>bytes\<close> object, which is also its \<^verbatim>\<open>str\<close>.\<close>

definition repr_byte :: "char \<Rightarrow> char \<Rightarrow> string" where
  "repr_byte quote c =
     (let n = (of_char c :: nat)
      in if c = quote \<or> c = CHR 0x5C then [CHR 0x5C, c]
         else if n = 9 then [CHR 0x5C, CHR ''t'']
         else if n = 10 then [CHR 0x5C, CHR ''n'']
         else if n = 13 then [CHR 0x5C, CHR ''r'']
         else if n < 32 \<or> 127 \<le> n then [CHR 0x5C, CHR ''x'', digit_char (n div 16), digit_char (n mod 16)]
         else [c])"

definition bytes_repr :: "bytes \<Rightarrow> string" where
  "bytes_repr b =
     (let quote = (if CHR 0x27 \<in> set b \<and> CHR 0x22 \<notin> set b then CHR 0x22 else CHR 0x27)
      in CHR ''b'' # quote # concat (map (repr_byte quote) b) @ [quote])"

text \<open>
  \<^verbatim>\<open>str(x)\<close>. An int of more than \<open>max_str_digits\<close> digits raises \<^verbatim>\<open>ValueError\<close>. The
  shortest round-trip rendering of a float is not modelled: it is the parameter
  \<open>float_str\<close> of every operation that formats a float.
\<close>

fun py_str :: "(pyfloat \<Rightarrow> string) \<Rightarrow> pyval \<Rightarrow> error + string" where
  "py_str float_str PNone = Inr ''None''"
| "py_str float_str (PBool b) = Inr (if b then ''True'' else ''False'')"
| "py_str float_str (PInt i) =
     (if length (digits10 (nat \<bar>i\<bar>)) \<le> max_str_digits then Inr (int_str i)
      else Inl (ValueError ''str''))"
| "py_str float_str (PFloat f) = Inr (float_str f)"
| "py_str float_str (PStr s) = Inr s"
| "py_str float_str (PBytes b) = Inr (bytes_repr b)"

text \<open>\<^verbatim>\<open>type(x) == int\<close> and \<^verbatim>\<open>type(x) == float\<close>: a bool is neither.\<close>

fun type_is_int :: "pyval \<Rightarrow> bool" where
  "type_is_int (PInt i) = True"
| "type_is_int _ = False"

fun type_is_float :: "pyval \<Rightarrow> bool" where
  "type_is_float (PFloat f) = True"
| "type_is_float _ = False"

text \<open>
  \<^verbatim>\<open>response[0]\<close>: indexing a \<^verbatim>\<open>bytes\<close> object gives an int, indexing a \<^verbatim>\<open>str\<close> gives
  a \<^verbatim>\<open>str\<close> of length one.
\<close>

fun py_first :: "pyval \<Rightarrow> error + pyval" where
  "py_first (PBytes []) = Inl IndexError"
| "py_first (PBytes (c # cs)) = Inr (PInt (of_char c))"
| "py_first (PStr []) = Inl IndexError"
| "py_first (PStr (c # cs)) = Inr (PStr [c])"
| "py_first _ = Inl (TypeError ''subscript'')"

text \<open>\<^verbatim>\<open>response[:-1].decode('ascii')\<close> of a \<^verbatim>\<open>bytes\<close> object.\<close>

fun drop_last_decode_ascii :: "pyval \<Rightarrow> error + pyval" where
  "drop_last_decode_ascii (PBytes b) =
     (if list_all (\<lambda>c. (of_char c :: nat) < 128) (butlast b)
      then Inr (PStr (butlast b)) else Inl UnicodeDecodeError)"
| "drop_last_decode_ascii (PStr s) = Inl (AttributeError ''decode'')"
| "drop_last_decode_ascii _ = Inl (TypeError ''subscript'')"

text \<open>\<^verbatim>\<open>s.encode("ascii")\<close>.\<close>

definition encode_ascii :: "string \<Rightarrow> error + bytes" where
  "encode_ascii s = (if list_all (\<lambda>c. (of_char c :: nat) < 128) s then Inr s else Inl UnicodeEncodeError)"

section \<open>LaserStatusResponse\<close>

record LaserStatusResponse =
  laser_enabled :: bool
  laser_active :: bool
  diode_external_trigger :: bool
  external_interlock :: bool
  resonator_over_temp :: bool
  electrical_over_temp :: bool
  power_failure :: bool
  ready_to_enable :: bool
  ready_to_fire :: bool
  low_power_mode :: bool
  high_power_mode :: bool

text \<open>\<^verbatim>\<open>bool(i & m)\<close> on ints.\<close>

definition bool_and :: "int \<Rightarrow> int \<Rightarrow> bool" where
  "bool_and i m = (i AND m \<noteq> 0)"

text \<open>\<^verbatim>\<open>LaserStatusResponse.__init__(self, response)\<close>: \<^verbatim>\<open>i = int(response)\<close>, then the flags.\<close>

definition LaserStatusResponse_init :: "pyval \<Rightarrow> error + LaserStatusResponse" where
  "LaserStatusResponse_init response =
     (case py_int response of
        Inl e \<Rightarrow> Inl e
      | Inr i \<Rightarrow> Inr
          \<lparr> laser_enabled = bool_and i 1,
            laser_active = bool_and i 2,
            diode_external_trigger = bool_and i 8,
            external_interlock = bool_and i 64,
            resonator_over_temp = bool_and i 128,
            electrical_over_temp = bool_and i 256,
            power_failure = bool_and i 512,
            ready_to_enable = bool_and i 1024,
            ready_to_fire = bool_and i 2048,
            low_power_mode = bool_and i 4096,
            high_power_mode = bool_and i 8192 \<rparr>)"

text \<open>\<^verbatim>\<open>LaserStatusResponse.__int__(self)\<close>.\<close>

definition LaserStatusResponse_int :: "LaserStatusResponse \<Rightarrow> int" where
  "LaserStatusResponse_int s =
     (let i = 0;
          i = (if laser_enabled s then i + 1 else i);
          i = (if laser_active s then i + 2 else i);
          i = (if diode_external_trigger s then i + 8 else i);
          i = (if external_interlock s then i + 64 else i);
          i = (if resonator_over_temp s then i + 128 else i);
          i = (if electrical_over_temp s then i + 256 else i);
          i = (if power_failure s then i + 512 else i);
          i = (if ready_to_enable s then i + 1024 else i);
          i = (if ready_to_fire s then i + 2048 else i);
          i = (if low_power_mode s then i + 4096 else i);
          i = (if high_power_mode s then i + 8192 else i)
      in i)"

section \<open>The serial port and the watchdog timer\<close>

text \<open>
  The port is an object of pyserial (or a mock in the tests), not of this module. It is
  modelled by what the module can observe of it: \<^verbatim>\<open>write\<close> appends the data to the log
  \<open>written\<close>; \<^verbatim>\<open>read_until\<close> returns the next answer of the device, taken from the queue
  \<open>pending\<close>, or the empty \<^verbatim>\<open>bytes\<close> object when nothing arrives before the timeout.
  The lock around the two calls and the 10 ms pause between them have no effect on a
  single thread of control and are omitted.
\<close>

record serial =
  written :: "bytes list"
  pending :: "bytes list"

definition serial_write :: "bytes \<Rightarrow> serial \<Rightarrow> serial" where
  "serial_write data s = s\<lparr>written := written s @ [data]\<rparr>"

definition serial_read_until :: "serial \<Rightarrow> bytes \<times> serial" where
  "serial_read_until s =
     (case pending s of
        [] \<Rightarrow> ([], s)
      | r # rs \<Rightarrow> (r, s\<lparr>pending := rs\<rparr>))"

section \<open>Laser\<close>

text \<open>
  The attributes of a \<^verbatim>\<open>Laser\<close> object. \<^verbatim>\<open>fire_duration\<close> and \<^verbatim>\<open>burstDuration\<close> do not
  exist until \<^verbatim>\<open>fire\<close> or a setter assigns them. \<open>kicker_running\<close> is the state of the
  \<^verbatim>\<open>RepeatedTimer\<close> held in \<^verbatim>\<open>_kicker\<close>.
\<close>

record Laser =
  ser :: "serial option"
  pulseMode :: pyval
  pulsePeriod :: pyval
  repRate :: pyval
  burstCount :: pyval
  pulseWidth :: pyval
  diodeTrigger :: pyval
  emergencyStopActive :: bool
  device_address :: string
  connected :: bool
  fire_timer :: int
  kicker_interval :: int
  kicker_running :: bool
  fire_duration :: "pyval option"
  burstDuration :: "pyval option"

text \<open>
  Modelled from the spec: the class \<^verbatim>\<open>RepeatedTimer\<close> of \<^verbatim>\<open>ujlaser/repeatedtimer.py\<close> is
  missing. The watchdog is "a single periodic background actor started only for firing
  durations judged long enough", "a cancellable scheduled task with explicit start/stop":
  it is not running when it is built, \<^verbatim>\<open>start\<close> makes it run and \<^verbatim>\<open>stop\<close> ends it. Each
  tick of a running timer is one call of \<^verbatim>\<open>_kicker_callback\<close>.
\<close>

definition RepeatedTimer_start :: "Laser \<Rightarrow> Laser" where
  "RepeatedTimer_start l = l\<lparr>kicker_running := True\<rparr>"

definition RepeatedTimer_stop :: "Laser \<Rightarrow> Laser" where
  "RepeatedTimer_stop l = l\<lparr>kicker_running := False\<rparr>"

text \<open>\<^verbatim>\<open>Laser.__init__\<close>; the defaults are \<^verbatim>\<open>0, 0, 1, 10, 10, 0\<close>.\<close>

definition Laser_init :: "pyval \<Rightarrow> pyval \<Rightarrow> pyval \<Rightarrow> pyval \<Rightarrow> pyval \<Rightarrow> pyval \<Rightarrow> Laser" where
  "Laser_init pm pp rr bc pw dt =
     \<lparr> ser = None, pulseMode = pm, pulsePeriod = pp, repRate = rr, burstCount = bc,
       pulseWidth = pw, diodeTrigger = dt, emergencyStopActive = False,
       device_address = ''LA'', connected = False, fire_timer = 0, kicker_interval = 1,
       kicker_running = False, fire_duration = None, burstDuration = None \<rparr>"

definition Laser_default :: Laser where
  "Laser_default = Laser_init (PInt 0) (PInt 0) (PInt 1) (PInt 10) (PInt 10) (PInt 0)"

text \<open>
  A response, as \<^verbatim>\<open>_send_command\<close> returns it, is \<^verbatim>\<open>None\<close> or a \<^verbatim>\<open>bytes\<close> object.
\<close>

fun rv :: "bytes option \<Rightarrow> pyval" where
  "rv None = PNone"
| "rv (Some b) = PBytes b"

text \<open>\<^verbatim>\<open>Laser._send_command(self, cmd)\<close>.\<close>

definition send_command :: "string \<Rightarrow> Laser \<Rightarrow> (error + bytes option) \<times> Laser" where
  "send_command cmd l =
     (if length cmd = 0 then (Inr None, l)
      else if \<not> connected l then
        (Inl (ConnectionError
           ''Not connected to a serial port. Please call connect() before issuing any commands!''), l)
      else
        (let cmd_complete = '';'' @ device_address l @ '':'' @ cmd @ [CR]
         in case ser l of
              None \<Rightarrow> (Inl (AttributeError ''write''), l)
            | Some s \<Rightarrow>
                (case encode_ascii cmd_complete of
                   Inl e \<Rightarrow> (Inl e, l)
                 | Inr data \<Rightarrow>
                     (let (response, s') = serial_read_until (serial_write data s)
                      in (Inr (Some response), l\<lparr>ser := Some s'\<rparr>)))))"

text \<open>\<^verbatim>\<open>Laser.get_error_code_description(code)\<close>, on a response.\<close>

definition get_error_code_description :: "bytes option \<Rightarrow> string" where
  "get_error_code_description code =
     (if \<not> py_truthy (rv code) then ''No response received from laser in time.''
      else if py_eq (rv code) (PBytes (''?1'' @ [CR, LF])) then ''Command not recognized.''
      else if py_eq (rv code) (PBytes (''?2'' @ [CR, LF])) then ''Missing command keyword.''
      else if py_eq (rv code) (PBytes (''?3'' @ [CR, LF])) then ''Invalid command keyword.''
      else if py_eq (rv code) (PBytes (''?4'' @ [CR, LF])) then ''Missing Parameter''
      else if py_eq (rv code) (PBytes (''?5'' @ [CR, LF])) then ''Invalid Parameter''
      else if py_eq (rv code) (PBytes (''?6'' @ [CR, LF])) then
        ''Query only. Command needs a question mark.''
      else if py_eq (rv code) (PBytes (''?7'' @ [CR, LF])) then
        ''Invalid query. Command does not have a query function.''
      else if py_eq (rv code) (PBytes (''?8'' @ [CR, LF])) then
        ''Command unavailable in current system state.''
      else ''Error description not found, response code given: ''
             @ (case code of None \<Rightarrow> ''None'' | Some b \<Rightarrow> bytes_repr b))"

text \<open>The test \<^verbatim>\<open>response[0] == b"?"\<close> of the getters.\<close>

definition first_is_marker :: "bytes option \<Rightarrow> error + bool" where
  "first_is_marker response =
     (case py_first (rv response) of
        Inl e \<Rightarrow> Inl e
      | Inr b \<Rightarrow> Inr (py_eq b (PBytes ''?'')))"

text \<open>The test \<^verbatim>\<open>not response or response[0] == b"?"\<close>; \<^verbatim>\<open>or\<close> evaluates its right operand
  only when the left one is false.\<close>

definition no_response_or_marker :: "bytes option \<Rightarrow> error + bool" where
  "no_response_or_marker response =
     (if \<not> py_truthy (rv response) then Inr True else first_is_marker response)"

text \<open>\<^verbatim>\<open>Laser.get_status(self)\<close>.\<close>

definition get_status :: "Laser \<Rightarrow> (error + LaserStatusResponse) \<times> Laser" where
  "get_status l =
     (case send_command ''SS?'' l of
        (Inl e, l1) \<Rightarrow> (Inl e, l1)
      | (Inr response, l1) \<Rightarrow>
          (case no_response_or_marker response of
             Inl e \<Rightarrow> (Inl e, l1)
           | Inr True \<Rightarrow> (Inl (LaserCommandError (get_error_code_description response)), l1)
           | Inr False \<Rightarrow>
               (case drop_last_decode_ascii (rv response) of
                  Inl e \<Rightarrow> (Inl e, l1)
                | Inr decoded \<Rightarrow>
                    (case LaserStatusResponse_init decoded of
                       Inl e \<Rightarrow> (Inl e, l1)
                     | Inr status \<Rightarrow> (Inr status, l1)))))"

text \<open>
  The getters of the parameters. Each sends its query, tests the response and converts
  it with \<^verbatim>\<open>int\<close> or \<^verbatim>\<open>float\<close>.
\<close>

definition get_pulse_mode :: "Laser \<Rightarrow> (error + pyval) \<times> Laser" where
  "get_pulse_mode l =
     (case send_command ''PM?'' l of
        (Inl e, l1) \<Rightarrow> (Inl e, l1)
      | (Inr response, l1) \<Rightarrow>
          (case no_response_or_marker response of
             Inl e \<Rightarrow> (Inl e, l1)
           | Inr True \<Rightarrow> (Inl (LaserCommandError (get_error_code_description response)), l1)
           | Inr False \<Rightarrow>
               (case py_int (rv response) of
                  Inl e \<Rightarrow> (Inl e, l1)
                | Inr i \<Rightarrow> (Inr (PInt i), l1))))"

definition get_pulse_period :: "Laser \<Rightarrow> (error + pyval) \<times> Laser" where
  "get_pulse_period l =
     (case send_command ''PE?'' l of
        (Inl e, l1) \<Rightarrow> (Inl e, l1)
      | (Inr response, l1) \<Rightarrow>
          (case no_response_or_marker response of
             Inl e \<Rightarrow> (Inl e, l1)
           | Inr True \<Rightarrow> (Inl (LaserCommandError (get_error_code_description response)), l1)
           | Inr False \<Rightarrow>
               (case py_float (rv response) of
                  Inl e \<Rightarrow> (Inl e, l1)
                | Inr f \<Rightarrow> (Inr (PFloat f), l1))))"

definition get_diode_trigger :: "Laser \<Rightarrow> (error + pyval) \<times> Laser" where
  "get_diode_trigger l =
     (case send_command ''DT?'' l of
        (Inl e, l1) \<Rightarrow> (Inl e, l1)
      | (Inr response, l1) \<Rightarrow>
          (case no_response_or_marker response of
             Inl e \<Rightarrow> (Inl e, l1)
           | Inr True \<Rightarrow> (Inl (LaserCommandError (get_error_code_description response)), l1)
           | Inr False \<Rightarrow>
               (case py_int (rv response) of
                  Inl e \<Rightarrow> (Inl e, l1)
                | Inr i \<Rightarrow> (Inr (PInt i), l1))))"

definition get_pulse_width :: "Laser \<Rightarrow> (error + pyval) \<times> Laser" where
  "get_pulse_width l =
     (case send_command ''DW?'' l of
        (Inl e, l1) \<Rightarrow> (Inl e, l1)
      | (Inr response, l1) \<Rightarrow>
          (case no_response_or_marker response of
             Inl e \<Rightarrow> (Inl e, l1)
           | Inr True \<Rightarrow> (Inl (LaserCommandError (get_error_code_description response)), l1)
           | Inr False \<Rightarrow>
               (case py_float (rv response) of
                  Inl e \<Rightarrow> (Inl e, l1)
                | Inr f \<Rightarrow> (Inr (PFloat f), l1))))"

text \<open>\<^verbatim>\<open>get_burst_count\<close> has no test for a missing response.\<close>

definition get_burst_count :: "Laser \<Rightarrow> (error + pyval) \<times> Laser" where
  "get_burst_count l =
     (case send_command ''BC?'' l of
        (Inl e, l1) \<Rightarrow> (Inl e, l1)
      | (Inr response, l1) \<Rightarrow>
          (case first_is_marker response of
             Inl e \<Rightarrow> (Inl e, l1)
           | Inr True \<Rightarrow> (Inl (LaserCommandError (get_error_code_description response)), l1)
           | Inr False \<Rightarrow>
               (case py_int (rv response) of
                  Inl e \<Rightarrow> (Inl e, l1)
                | Inr i \<Rightarrow> (Inr (PInt i), l1))))"

text \<open>\<^verbatim>\<open>get_repetition_rate\<close> returns \<^verbatim>\<open>None\<close> when there is no response.\<close>

definition get_repetition_rate :: "Laser \<Rightarrow> (error + pyval) \<times> Laser" where
  "get_repetition_rate l =
     (case send_command ''RR?'' l of
        (Inl e, l1) \<Rightarrow> (Inl e, l1)
      | (Inr response, l1) \<Rightarrow>
          if \<not> py_truthy (rv response) then (Inr PNone, l1)
          else
            (case first_is_marker response of
               Inl e \<Rightarrow> (Inl e, l1)
             | Inr True \<Rightarrow> (Inl (LaserCommandError (get_error_code_description response)), l1)
             | Inr False \<Rightarrow>
                 (case py_float (rv response) of
                    Inl e \<Rightarrow> (Inl e, l1)
                  | Inr f \<Rightarrow> (Inr (PFloat f), l1))))"

subsection \<open>Arming\<close>

text \<open>\<^verbatim>\<open>Laser.is_armed(self)\<close>: the result is \<^verbatim>\<open>response[0] == b'1'\<close>.\<close>

definition is_armed :: "Laser \<Rightarrow> (error + bool) \<times> Laser" where
  "is_armed l =
     (case send_command ''EN?'' l of
        (Inl e, l1) \<Rightarrow> (Inl e, l1)
      | (Inr response, l1) \<Rightarrow>
          (case no_response_or_marker response of
             Inl e \<Rightarrow> (Inl e, l1)
           | Inr True \<Rightarrow> (Inl (LaserCommandError (get_error_code_description response)), l1)
           | Inr False \<Rightarrow>
               (case py_first (rv response) of
                  Inl e \<Rightarrow> (Inl e, l1)
                | Inr b \<Rightarrow> (Inr (py_eq b (PBytes ''1'')), l1))))"

text \<open>\<^verbatim>\<open>Laser.arm(self)\<close>.\<close>

definition arm :: "Laser \<Rightarrow> (error + bool) \<times> Laser" where
  "arm l =
     (case is_armed l of
        (Inl e, l1) \<Rightarrow> (Inl e, l1)
      | (Inr True, l1) \<Rightarrow> (Inl (LaserCommandError ''Laser already armed''), l1)
      | (Inr False, l1) \<Rightarrow>
          (case send_command ''EN 1'' l1 of
             (Inl e, l2) \<Rightarrow> (Inl e, l2)
           | (Inr response, l2) \<Rightarrow>
               if py_eq (rv response) (PBytes ok_token) then (Inr True, l2)
               else (Inl (LaserCommandError (get_error_code_description response)), l2)))"

subsection \<open>Emergency stop\<close>

text \<open>
  \<^verbatim>\<open>emergency_stop\<close> reads the attributes \<^verbatim>\<open>self.fireThread\<close> and \<^verbatim>\<open>self._threads\<close>. No
  statement of the module assigns either of them (\<^verbatim>\<open>__init__\<close> does not, and the names
  occur nowhere else), so reading \<^verbatim>\<open>self.fireThread\<close> raises \<^verbatim>\<open>AttributeError\<close>.
\<close>

definition getattr_fireThread :: "Laser \<Rightarrow> error + nat" where
  "getattr_fireThread l = Inl (AttributeError ''fireThread'')"

definition getattr_threads :: "Laser \<Rightarrow> error + nat list" where
  "getattr_threads l = Inl (AttributeError ''_threads'')"

text \<open>\<^verbatim>\<open>Laser.emergency_stop(self)\<close>; it returns \<^verbatim>\<open>True\<close>, or \<^verbatim>\<open>None\<close> when the test
  of the threads fails.\<close>

definition emergency_stop :: "Laser \<Rightarrow> (error + pyval) \<times> Laser" where
  "emergency_stop l =
     (let l1 = l\<lparr>emergencyStopActive := True\<rparr>
      in case getattr_fireThread l1 of
           Inl e \<Rightarrow> (Inl e, l1)
         | Inr fireThread \<Rightarrow>
             (case getattr_threads l1 of
                Inl e \<Rightarrow> (Inl e, l1)
              | Inr threads \<Rightarrow>
                  if fireThread \<notin> set threads then
                    (case send_command ''FL 0'' l1 of
                       (Inl e, l2) \<Rightarrow> (Inl e, l2)
                     | (Inr response, l2) \<Rightarrow>
                         if py_eq (rv response) (PBytes ok_token) then (Inr (PBool True), l2)
                         else (Inl (LaserCommandError (get_error_code_description response)), l2))
                  else (Inr PNone, l1)))"

subsection \<open>Firing and the watchdog\<close>

text \<open>The expected duration of a firing, as \<^verbatim>\<open>fire\<close> computes it.\<close>

definition compute_fire_duration :: "Laser \<Rightarrow> error + pyval" where
  "compute_fire_duration l =
     (if py_eq (pulseMode l) (PInt 0) then py_truediv (PInt 1) (repRate l)
      else if py_eq (pulseMode l) (PInt 1) then py_truediv (PInt 1) (repRate l)
      else if py_eq (pulseMode l) (PInt 2) then py_truediv (burstCount l) (repRate l)
      else Inl (LaserCommandError ''Invalid pulse mode set for laser!''))"

text \<open>\<^verbatim>\<open>Laser.fire(self)\<close>; the two \<^verbatim>\<open>print\<close> calls are omitted.\<close>

definition fire :: "Laser \<Rightarrow> (error + unit) \<times> Laser" where
  "fire l =
     (case get_status l of
        (Inl e, l1) \<Rightarrow> (Inl e, l1)
      | (Inr status, l1) \<Rightarrow>
          (case compute_fire_duration l1 of
             Inl e \<Rightarrow> (Inl e, l1)
           | Inr fd \<Rightarrow>
               (let l2 = l1\<lparr>fire_duration := Some fd\<rparr>
                in if \<not> laser_enabled status then (Inl (LaserCommandError ''Laser not armed!''), l2)
                   else if \<not> ready_to_fire status then
                     (Inl (LaserCommandError ''Laser not ready to fire!''), l2)
                   else
                     (case py_ge fd (PInt 3) of
                        Inl e \<Rightarrow> (Inl e, l2)
                      | Inr long \<Rightarrow>
                          (let l3 = (if long then RepeatedTimer_start l2 else l2)
                           in case send_command ''FL 1'' l3 of
                                (Inl e, l4) \<Rightarrow> (Inl e, l4)
                              | (Inr fire_response, l4) \<Rightarrow>
                                  if \<not> py_eq (rv fire_response) (PBytes ok_token) then
                                    (case send_command ''FL 0'' l4 of
                                       (Inl e, l5) \<Rightarrow> (Inl e, l5)
                                     | (Inr r, l5) \<Rightarrow>
                                         (Inl (LaserCommandError
                                            (get_error_code_description fire_response)), l5))
                                  else (Inr (), l4))))))"

text \<open>
  The first statement of \<^verbatim>\<open>_kicker_callback\<close>: \<^verbatim>\<open>try: status = laser.get_status()\<close> with
  its handler for \<^verbatim>\<open>LaserCommandError\<close>. The local variable \<^verbatim>\<open>status\<close> is bound only when
  \<^verbatim>\<open>get_status\<close> returns; another exception than \<^verbatim>\<open>LaserCommandError\<close> is not caught.
\<close>

definition kicker_try :: "Laser \<Rightarrow> (error + LaserStatusResponse option) \<times> Laser" where
  "kicker_try l =
     (case get_status l of
        (Inr status, l1) \<Rightarrow> (Inr (Some status), l1)
      | (Inl (LaserCommandError m), l1) \<Rightarrow>
          (case send_command ''FL 0'' l1 of
             (Inl e, l2) \<Rightarrow> (Inl e, l2)
           | (Inr r, l2) \<Rightarrow> (Inr None, RepeatedTimer_stop l2))
      | (Inl e, l1) \<Rightarrow> (Inl e, l1))"

text \<open>
  \<^verbatim>\<open>Laser._kicker_callback(self, laser)\<close>, with \<^verbatim>\<open>laser\<close> the object itself, as \<^verbatim>\<open>__init__\<close>
  passes it to the timer. Reading the unbound \<^verbatim>\<open>status\<close> raises \<^verbatim>\<open>UnboundLocalError\<close>. A
  \<^verbatim>\<open>LaserStatusResponse\<close> object is always true (the class defines neither \<^verbatim>\<open>__bool__\<close>
  nor \<^verbatim>\<open>__len__\<close>), so the body of \<^verbatim>\<open>if not status\<close> is never run.
\<close>

definition kicker_callback :: "Laser \<Rightarrow> (error + unit) \<times> Laser" where
  "kicker_callback l =
     (case kicker_try l of
        (Inl e, l1) \<Rightarrow> (Inl e, l1)
      | (Inr None, l1) \<Rightarrow> (Inl (UnboundLocalError ''status''), l1)
      | (Inr (Some status), l1) \<Rightarrow>
          if laser_active status then
            (Inr (), l1\<lparr>fire_timer := fire_timer l1 + kicker_interval l1\<rparr>)
          else
            (case fire_duration l1 of
               None \<Rightarrow> (Inl (AttributeError ''fire_duration''), l1)
             | Some fd \<Rightarrow>
                 (case py_gt (PInt (fire_timer l1)) fd of
                    Inl e \<Rightarrow> (Inl e, l1)
                  | Inr True \<Rightarrow> (Inr (), (RepeatedTimer_stop l1)\<lparr>fire_timer := 0\<rparr>)
                  | Inr False \<Rightarrow>
                      (Inr (), l1\<lparr>fire_timer := fire_timer l1 + kicker_interval l1\<rparr>))))"

subsection \<open>The setters\<close>

text \<open>
  The tail shared by the setters: send the command; on the success token run the update
  of the cache (which may itself raise) and return \<^verbatim>\<open>True\<close>, otherwise raise
  \<^verbatim>\<open>LaserCommandError\<close>. An update that raises half-way returns the object as it had
  changed it so far.
\<close>

definition send_and_store ::
    "string \<Rightarrow> (Laser \<Rightarrow> (error + unit) \<times> Laser) \<Rightarrow> Laser \<Rightarrow> (error + bool) \<times> Laser" where
  "send_and_store cmd store l =
     (case send_command cmd l of
        (Inl e, l1) \<Rightarrow> (Inl e, l1)
      | (Inr response, l1) \<Rightarrow>
          if py_eq (rv response) (PBytes ok_token) then
            (case store l1 of
               (Inl e, l2) \<Rightarrow> (Inl e, l2)
             | (Inr u, l2) \<Rightarrow> (Inr True, l2))
          else (Inl (LaserCommandError (get_error_code_description response)), l1))"

text \<open>\<^verbatim>\<open>self.burstDuration = self.burstCount / self.repRate\<close>.\<close>

definition store_burstDuration :: "Laser \<Rightarrow> (error + unit) \<times> Laser" where
  "store_burstDuration l =
     (case py_truediv (burstCount l) (repRate l) of
        Inl e \<Rightarrow> (Inl e, l)
      | Inr d \<Rightarrow> (Inr (), l\<lparr>burstDuration := Some d\<rparr>))"

text \<open>\<^verbatim>\<open>Laser.set_pulse_mode(self, mode)\<close>.\<close>

definition set_pulse_mode :: "(pyfloat \<Rightarrow> string) \<Rightarrow> pyval \<Rightarrow> Laser \<Rightarrow> (error + bool) \<times> Laser" where
  "set_pulse_mode float_str mode l =
     (if \<not> (py_eq mode (PInt 0) \<or> py_eq mode (PInt 1) \<or> py_eq mode (PInt 2))
          \<or> \<not> type_is_int mode
      then (Inl (ValueError ''Invalid value for pulse mode! 0, 1, or 2 are accepted values.''), l)
      else
        (case py_str float_str mode of
           Inl e \<Rightarrow> (Inl e, l)
         | Inr t \<Rightarrow> send_and_store (''PM '' @ t) (\<lambda>l1. (Inr (), l1\<lparr>pulseMode := mode\<rparr>)) l))"

text \<open>\<^verbatim>\<open>Laser.set_pulse_period(self, period)\<close>: no check of the argument.\<close>

definition store_pulse_period :: "pyval \<Rightarrow> Laser \<Rightarrow> (error + unit) \<times> Laser" where
  "store_pulse_period period l =
     (case py_float period of
        Inl e \<Rightarrow> (Inl e, l)
      | Inr f \<Rightarrow>
          (let l1 = l\<lparr>pulsePeriod := PFloat f\<rparr>
           in case py_truediv (PInt 1) period of
                Inl e \<Rightarrow> (Inl e, l1)
              | Inr r \<Rightarrow> (Inr (), l1\<lparr>repRate := r\<rparr>)))"

definition set_pulse_period :: "(pyfloat \<Rightarrow> string) \<Rightarrow> pyval \<Rightarrow> Laser \<Rightarrow> (error + bool) \<times> Laser" where
  "set_pulse_period float_str period l =
     (case py_str float_str period of
        Inl e \<Rightarrow> (Inl e, l)
      | Inr t \<Rightarrow> send_and_store (''PE '' @ t) (store_pulse_period period) l)"

text \<open>\<^verbatim>\<open>Laser.set_diode_trigger(self, trigger)\<close>.\<close>

definition set_diode_trigger :: "(pyfloat \<Rightarrow> string) \<Rightarrow> pyval \<Rightarrow> Laser \<Rightarrow> (error + bool) \<times> Laser" where
  "set_diode_trigger float_str trigger l =
     (if (\<not> py_eq trigger (PInt 0) \<and> \<not> py_eq trigger (PInt 1)) \<or> \<not> type_is_int trigger
      then (Inl (ValueError ''Invalid value for trigger mode! 0 or 1 are accepted values.''), l)
      else
        (case py_str float_str trigger of
           Inl e \<Rightarrow> (Inl e, l)
         | Inr t \<Rightarrow>
             send_and_store (''DT '' @ t) (\<lambda>l1. (Inr (), l1\<lparr>diodeTrigger := trigger\<rparr>)) l))"

text \<open>
  \<^verbatim>\<open>Laser.set_pulse_width(self, width)\<close>. The comparison \<^verbatim>\<open>width <= 0\<close> is evaluated only
  for an int or a float; then \<^verbatim>\<open>width = float(width)\<close>.
\<close>

definition set_pulse_width :: "(pyfloat \<Rightarrow> string) \<Rightarrow> pyval \<Rightarrow> Laser \<Rightarrow> (error + bool) \<times> Laser" where
  "set_pulse_width float_str width l =
     (if \<not> type_is_int width \<and> \<not> type_is_float width then
        (Inl (ValueError ''Pulse width must be a positive, non-zero number value (no strings)!''), l)
      else
        (case py_le width (PInt 0) of
           Inl e \<Rightarrow> (Inl e, l)
         | Inr True \<Rightarrow>
             (Inl (ValueError ''Pulse width must be a positive, non-zero number value (no strings)!''), l)
         | Inr False \<Rightarrow>
             (case py_float width of
                Inl e \<Rightarrow> (Inl e, l)
              | Inr w \<Rightarrow>
                  (case py_str float_str (PFloat w) of
                     Inl e \<Rightarrow> (Inl e, l)
                   | Inr t \<Rightarrow>
                       send_and_store (''DW '' @ t)
                         (\<lambda>l1. (Inr (), l1\<lparr>pulseWidth := PFloat w\<rparr>)) l))))"

text \<open>
  \<^verbatim>\<open>Laser.set_burst_count(self, count)\<close>. The comparison \<^verbatim>\<open>count <= 0\<close> comes first, for
  an argument of any type.
\<close>

definition set_burst_count :: "(pyfloat \<Rightarrow> string) \<Rightarrow> pyval \<Rightarrow> Laser \<Rightarrow> (error + bool) \<times> Laser" where
  "set_burst_count float_str count l =
     (case py_le count (PInt 0) of
        Inl e \<Rightarrow> (Inl e, l)
      | Inr nonpositive \<Rightarrow>
          if nonpositive \<or> \<not> type_is_int count
          then (Inl (ValueError ''Burst count must be a positive, non-zero integer!''), l)
          else
            (case py_str float_str count of
               Inl e \<Rightarrow> (Inl e, l)
             | Inr t \<Rightarrow>
                 send_and_store (''BC '' @ t)
                   (\<lambda>l1. store_burstDuration (l1\<lparr>burstCount := count\<rparr>)) l))"

text \<open>\<^verbatim>\<open>Laser.set_repetition_rate(self, rate)\<close>.\<close>

definition set_repetition_rate :: "(pyfloat \<Rightarrow> string) \<Rightarrow> pyval \<Rightarrow> Laser \<Rightarrow> (error + bool) \<times> Laser" where
  "set_repetition_rate float_str rate l =
     (if \<not> (type_is_int rate \<or> type_is_float rate) then
        (Inl (ValueError ''Laser repetition rate must be a positive number from 1 to 5!''), l)
      else
        (case py_lt rate (PInt 1) of
           Inl e \<Rightarrow> (Inl e, l)
         | Inr True \<Rightarrow>
             (Inl (ValueError ''Laser repetition rate must be a positive number from 1 to 5!''), l)
         | Inr False \<Rightarrow>
             (case py_gt rate (PInt 5) of
                Inl e \<Rightarrow> (Inl e, l)
              | Inr True \<Rightarrow>
                  (Inl (ValueError ''Laser repetition rate must be a positive number from 1 to 5!''), l)
              | Inr False \<Rightarrow>
                  (case py_str float_str rate of
                     Inl e \<Rightarrow> (Inl e, l)
                   | Inr t \<Rightarrow>
                       send_and_store (''RR '' @ t)
                         (\<lambda>l1. store_burstDuration (l1\<lparr>repRate := rate\<rparr>)) l))))"

section \<open>Notions used to state the properties\<close>

text \<open>
  A laser attached to a port, the way the tests attach a mock
  (\<^verbatim>\<open>l._ser = serial_mock; l.connected = True\<close>): nothing is written yet and the device
  will give the answers \<open>answers\<close>, in this order.
\<close>

definition attach :: "bytes list \<Rightarrow> Laser \<Rightarrow> Laser" where
  "attach answers l = l\<lparr>ser := Some \<lparr>written = [], pending = answers\<rparr>, connected := True\<rparr>"

text \<open>Everything written to the port so far.\<close>

definition wire :: "Laser \<Rightarrow> bytes list" where
  "wire l = (case ser l of None \<Rightarrow> [] | Some s \<Rightarrow> written s)"

text \<open>The wire form of a command: \<^verbatim>\<open>;LA:\<close>, the command, carriage return.\<close>

definition frame :: "string \<Rightarrow> bytes" where
  "frame cmd = '';LA:'' @ cmd @ [CR]"

text \<open>
  The status word written in binary, least significant bit first: positions 2, 4 and 5
  carry no flag.
\<close>

definition horner :: "bool list \<Rightarrow> int" where
  "horner bs = foldr (\<lambda>b y. of_bool b + 2 * y) bs 0"

definition flag_bits :: "LaserStatusResponse \<Rightarrow> bool list" where
  "flag_bits s =
     [laser_enabled s, laser_active s, False, diode_external_trigger s, False, False,
      external_interlock s, resonator_over_temp s, electrical_over_temp s, power_failure s,
      ready_to_enable s, ready_to_fire s, low_power_mode s, high_power_mode s]"

text \<open>
  The validation rules in the words of the specification: pulse mode in \<open>{0,1,2}\<close>, diode
  trigger in \<open>{0,1}\<close>, pulse width \<open>> 0\<close>, burst count a positive integer, repetition rate
  in \<open>[1,5]\<close>.
\<close>

definition rule_pulse_mode :: "pyval \<Rightarrow> bool" where
  "rule_pulse_mode v = (v = PInt 0 \<or> v = PInt 1 \<or> v = PInt 2)"

definition rule_diode_trigger :: "pyval \<Rightarrow> bool" where
  "rule_diode_trigger v = (v = PInt 0 \<or> v = PInt 1)"

fun rule_pulse_width :: "pyval \<Rightarrow> bool" where
  "rule_pulse_width (PInt i) = (0 < i)"
| "rule_pulse_width (PFloat f) = float_lt (Finite 0) f"
| "rule_pulse_width _ = False"

fun rule_burst_count :: "pyval \<Rightarrow> bool" where
  "rule_burst_count (PInt i) = (0 < i)"
| "rule_burst_count _ = False"

fun rule_repetition_rate :: "pyval \<Rightarrow> bool" where
  "rule_repetition_rate (PInt i) = (1 \<le> i \<and> i \<le> 5)"
| "rule_repetition_rate (PFloat f) = (float_le (Finite 1) f \<and> float_le f (Finite 5))"
| "rule_repetition_rate _ = False"

text \<open>
  A laser in a long firing: attached to a device that does not answer, the watchdog
  running, \<^verbatim>\<open>fire_duration\<close> set to 10 seconds.
\<close>

definition firing_laser :: Laser where
  "firing_laser =
     RepeatedTimer_start ((attach [] Laser_default)\<lparr>fire_duration := Some (PFloat (Finite 10))\<rparr>)"

text \<open>
  A laser in burst mode (10 pulses at 1 Hz, a firing of 10 seconds) attached to a device
  that reports status 3075 (enabled, active, ready to enable, ready to fire), rejects the
  fire-start command with error 8 and acknowledges the next command.
\<close>

definition burst_laser :: Laser where
  "burst_laser = attach [''3075'' @ [CR], ''?8'' @ [CR, LF], ok_token]
     (Laser_init (PInt 2) (PInt 0) (PInt 1) (PInt 10) (PInt 10) (PInt 0))"

section \<open>Evaluation of runs\<close>

text \<open>The definitions through which a run on a concrete port is evaluated.\<close>

lemmas run_defs = send_command_def serial_write_def serial_read_until_def encode_ascii_def
  no_response_or_marker_def first_is_marker_def get_error_code_description_def
  Let_def attach_def wire_def frame_def Laser_default_def Laser_init_def CR_def LF_def
  ok_token_def

lemma send_command_connected:
  assumes "connected l" "ser l = Some s" "device_address l = ''LA''" "cmd \<noteq> []"
    and "list_all (\<lambda>c. (of_char c :: nat) < 128) cmd"
  shows "send_command cmd l =
     (Inr (Some (case pending s of [] \<Rightarrow> [] | r # rs \<Rightarrow> r)),
      l\<lparr>ser := Some (s\<lparr>written := written s @ [frame cmd], pending := tl (pending s)\<rparr>)\<rparr>)"
  using assms
  by (cases "pending s")
    (simp_all add: send_command_def encode_ascii_def serial_write_def serial_read_until_def
      frame_def CR_def Let_def)

section \<open>Facts about numbers\<close>

lemma round_ratio_zero: "round_ratio 0 d = Finite 0"
  by (simp add: round_ratio_def)

lemmas round_eval = round_ratio_def round_half_even_def pow2_def ilog2.simps Let_def

lemma round_small:
  "round_ratio 1 1 = Finite 1" "round_ratio 2 1 = Finite 2" "round_ratio 10 1 = Finite 10"
  "round_ratio 1 2 = Finite (1 / 2)" "round_ratio 5 1 = Finite 5"
  by (simp_all add: round_eval)

lemma floor_numeral_quotient:
  "\<lfloor>(numeral a :: rat) / numeral b\<rfloor> = numeral a div numeral b"
  using floor_divide_of_int_eq [of "numeral a" "numeral b", where ?'a = rat] by simp

lemma quotient_of_numerals:
  "quotient_of (numeral a / numeral b) = Rat.normalize (numeral a, numeral b)"
  using quotient_of_Fract [of "numeral a" "numeral b"]
  by (simp add: Fract_of_int_quotient)

lemma int_to_float_small:
  "int_to_float 0 = Inr (Finite 0)" "int_to_float 1 = Inr (Finite 1)"
  "int_to_float 2 = Inr (Finite 2)" "int_to_float 5 = Inr (Finite 5)"
  by (simp_all add: int_to_float_def round_ratio_zero round_small)

text \<open>
  Rounding at work. \<^verbatim>\<open>1/3\<close> is the double \<^verbatim>\<open>0.3333333333333333\<close>, that is
  \<open>6004799503160661 / 2 ^ 54\<close>. The float \<^verbatim>\<open>5/3\<close> is \<open>7505999378950827 / 2 ^ 52\<close>, and 5
  divided by it is exactly \<^verbatim>\<open>3.0\<close>, although the exact quotient is below 3: a burst of 5
  pulses at this rate has a \<^verbatim>\<open>fire_duration\<close> that passes the test \<^verbatim>\<open>>= 3\<close> of \<^verbatim>\<open>fire\<close>.
\<close>

lemma one_third:
  "py_truediv (PInt 1) (PInt 3) = Inr (PFloat (Finite (6004799503160661 / 18014398509481984)))"
  by (simp add: py_truediv_def round_eval floor_numeral_quotient)

lemma five_thirds_rounds_to_three:
  "round_ratio 22517998136852480 7505999378950827 = Finite 3"
  by (simp add: round_eval floor_numeral_quotient)

lemma quotient_five_thirds:
  "quotient_of (22517998136852480 / 7505999378950827) = (22517998136852480, 7505999378950827)"
  by (simp add: quotient_of_numerals Rat.normalize_def Let_def gcd_code_int)

lemma five_over_five_thirds:
  "py_truediv (PInt 5) (PFloat (Finite (7505999378950827 / 4503599627370496)))
     = Inr (PFloat (Finite 3))"
  by (simp add: py_truediv_def int_to_float_small round_double_def quotient_five_thirds
      five_thirds_rounds_to_three)

lemma fire_duration_five_thirds:
  "compute_fire_duration
     (Laser_init (PInt 2) (PInt 0) (PFloat (Finite (7505999378950827 / 4503599627370496)))
        (PInt 5) (PInt 10) (PInt 0)) = Inr (PFloat (Finite 3))"
  "py_ge (PFloat (Finite 3)) (PInt 3) = Inr True"
  by (simp_all add: compute_fire_duration_def Laser_init_def five_over_five_thirds
      py_ge_def py_cmp_def float_le_def)

text \<open>
  Literals: \<^verbatim>\<open>float(b"0.1")\<close> is the double nearest to one tenth, \<^verbatim>\<open>float(b"1e400")\<close> is
  infinite and \<^verbatim>\<open>float(b"1e-400")\<close> is zero. The code points 28 to 31 are not stripped
  from a \<^verbatim>\<open>str\<close>.
\<close>

lemmas parse_eval = parse_float_def parse_exponent_def scale10_def strip_def bytes_space_def
  split_sign_def is_digit_def digit_val_def to_lower_def Let_def

lemma float_literals:
  "py_float (PBytes ''0.1'') = Inr (Finite (3602879701896397 / 36028797018963968))"
  "py_float (PBytes ''1e400'') = Inr PosInf"
  "py_float (PBytes ''1e-400'') = Inr (Finite 0)"
  by (simp_all add: parse_eval round_eval floor_numeral_quotient)

lemma control_characters_not_stripped:
  "py_int (PStr (CHR 0x1C # ''3075'')) = Inl (ValueError ''int'')"
  by (simp add: parse_int_def strip_def str_space_def split_sign_def is_digit_def)

lemma float_le_simps:
  "float_le (Finite a) (Finite b) = (a \<le> b)"
  "float_le NegInf (Finite b)" "\<not> float_le PosInf (Finite b)"
  "float_le (Finite a) PosInf" "\<not> float_le (Finite a) NegInf"
  "\<not> float_le NaN x" "\<not> float_le x NaN"
  by (auto simp add: float_le_def elim: float_lt.elims float_eq.elims)

section \<open>The status word\<close>

lemma and_pow2: "(i::int) AND 2 ^ k = (if bit i k then 2 ^ k else 0)"
  by (rule bit_eqI) (auto simp add: bit_and_iff bit_exp_iff)

lemma bool_and_bit: "bool_and i (2 ^ k) = bit i k"
  by (simp add: bool_and_def and_pow2)

lemma bool_and_bits:
  "bool_and i 1 = bit i 0" "bool_and i 2 = bit i 1" "bool_and i 8 = bit i 3"
  "bool_and i 64 = bit i 6" "bool_and i 128 = bit i 7" "bool_and i 256 = bit i 8"
  "bool_and i 512 = bit i 9" "bool_and i 1024 = bit i 10" "bool_and i 2048 = bit i 11"
  "bool_and i 4096 = bit i 12" "bool_and i 8192 = bit i 13"
  using bool_and_bit [of i 0] bool_and_bit [of i 1] bool_and_bit [of i 3]
    bool_and_bit [of i 6] bool_and_bit [of i 7] bool_and_bit [of i 8]
    bool_and_bit [of i 9] bool_and_bit [of i 10] bool_and_bit [of i 11]
    bool_and_bit [of i 12] bool_and_bit [of i 13]
  by simp_all

lemma horner_simps: "horner [] = 0" "horner (b # bs) = of_bool b + 2 * horner bs"
  by (simp_all add: horner_def)

lemma bit_horner: "bit (horner bs) j = (j < length bs \<and> bs ! j)"
proof (induction bs arbitrary: j)
  case Nil
  then show ?case by (simp add: horner_simps)
next
  case (Cons b bs)
  show ?case
    by (cases j) (simp_all add: horner_simps bit_0 bit_Suc Cons.IH)
qed

lemma if_add: "(if b then i + c else i) = i + c * of_bool b" for i :: int
  by simp

lemma int_horner: "LaserStatusResponse_int s = horner (flag_bits s)"
  unfolding LaserStatusResponse_int_def Let_def flag_bits_def horner_simps if_add
  by simp

lemma mask_horner:
  "(16331::int) = horner [True, True, False, True, False, False, True, True, True, True,
     True, True, True, True]"
  by (simp add: horner_simps)

lemma less14: "j < 14 \<Longrightarrow> j \<in> {0,1,2,3,4,5,6,7,8,9,10,11,12,13::nat}"
  by simp arith

lemma int_of_decoded:
  assumes "LaserStatusResponse_init (PInt n) = Inr st"
  shows "LaserStatusResponse_int st = n AND 16331"
proof -
  have fb: "flag_bits st = [bit n 0, bit n 1, False, bit n 3, False, False, bit n 6, bit n 7,
      bit n 8, bit n 9, bit n 10, bit n 11, bit n 12, bit n 13]"
    using assms by (auto simp add: LaserStatusResponse_init_def bool_and_bits flag_bits_def)
  show ?thesis
  proof (rule bit_eqI)
    fix j
    show "bit (LaserStatusResponse_int st) j = bit (n AND 16331) j"
    proof (cases "j < 14")
      case True
      from less14 [OF True] show ?thesis
        unfolding int_horner fb bit_and_iff mask_horner bit_horner
        by auto
    next
      case False
      then show ?thesis
        unfolding int_horner fb bit_and_iff mask_horner bit_horner
        by simp
    qed
  qed
qed

lemma and_id_iff: "(n AND m = n) = (n AND NOT m = 0)" for n m :: int
  by (auto simp add: bit_eq_iff bit_and_iff bit_not_iff)

text \<open>
  C7. For each of the 2048 values of the eleven flags, decoding the integer that
  \<^verbatim>\<open>__int__\<close> gives reproduces the same flags: the constructor applied to the encoded
  integer succeeds and returns the status it was encoded from.
\<close>

theorem status_round_trip:
  "LaserStatusResponse_init (PInt (LaserStatusResponse_int s)) = Inr (s :: LaserStatusResponse)"
  by (simp add: LaserStatusResponse_init_def bool_and_bits int_horner bit_horner flag_bits_def)

text \<open>
  C9. For every integer \<open>n\<close> (in particular every non-negative one), decoding \<open>n\<close>
  succeeds and encoding the result gives \<open>n AND 16331\<close>; so encoding after decoding gives
  \<open>n\<close> back exactly when \<open>n\<close> has no bit outside the eleven defined positions.
\<close>

theorem encode_decode_masks:
  "map_sum id LaserStatusResponse_int (LaserStatusResponse_init (PInt n)) = Inr (n AND 16331)
   \<and> ((map_sum id LaserStatusResponse_int (LaserStatusResponse_init (PInt n)) = Inr n)
        = (n AND NOT 16331 = 0))"
proof -
  obtain st where st: "LaserStatusResponse_init (PInt n) = Inr st"
    by (simp add: LaserStatusResponse_init_def)
  have "LaserStatusResponse_int st = n AND 16331"
    by (rule int_of_decoded [OF st])
  then show ?thesis
    using and_id_iff [of n 16331] by (simp add: st)
qed

section \<open>Sending while disconnected\<close>

text \<open>
  C8, as stated, fails for the empty command: \<^verbatim>\<open>_send_command("")\<close> on a laser that was
  never connected returns \<^verbatim>\<open>None\<close> and raises nothing, because the test of the length
  comes before the test of the connection.
\<close>

theorem send_empty_disconnected_counterexample:
  "\<not> connected Laser_default \<and> send_command [] Laser_default = (Inr None, Laser_default)"
  by (simp add: send_command_def Laser_default_def Laser_init_def)

text \<open>
  C8, amended. On a disconnected laser every non-empty command raises the
  \<^verbatim>\<open>ConnectionError\<close> and the empty command returns \<^verbatim>\<open>None\<close>; in both cases the object,
  and with it the port, is left as it was, so nothing is written.
\<close>

theorem send_disconnected:
  assumes "\<not> connected l"
  shows "send_command cmd l =
     (if cmd = [] then Inr None
      else Inl (ConnectionError
        ''Not connected to a serial port. Please call connect() before issuing any commands!''),
      l)"
  using assms by (simp add: send_command_def)

theorem send_disconnected_witness:
  "\<not> connected Laser_default \<and>
   send_command ''HELLO THERE'' Laser_default =
     (Inl (ConnectionError
        ''Not connected to a serial port. Please call connect() before issuing any commands!''),
      Laser_default)"
proof -
  have h: "\<not> connected Laser_default"
    by (simp add: Laser_default_def Laser_init_def)
  show ?thesis
    using h send_disconnected [OF h, of "''HELLO THERE''"] by simp
qed

section \<open>Emergency stop\<close>

text \<open>
  C1 does not hold of the code. In every state \<^verbatim>\<open>emergency_stop\<close> sets
  \<^verbatim>\<open>emergencyStopActive\<close> and then raises \<^verbatim>\<open>AttributeError\<close> on \<^verbatim>\<open>self.fireThread\<close>: the
  port is untouched, the fire-stop command is never sent, and the error is not a device
  rejection.
\<close>

theorem emergency_stop_raises_AttributeError:
  "emergency_stop l = (Inl (AttributeError ''fireThread''), l\<lparr>emergencyStopActive := True\<rparr>)"
  by (simp add: emergency_stop_def getattr_fireThread_def)

section \<open>Arming twice\<close>

lemma py_first_never_bytes: "py_first (rv r) = Inr b \<Longrightarrow> \<not> py_eq b (PBytes x)"
proof (cases r)
  case None
  assume "py_first (rv r) = Inr b"
  with None show ?thesis by simp
next
  case (Some bs)
  assume "py_first (rv r) = Inr b"
  with Some show ?thesis by (cases bs) auto
qed

lemma is_armed_never_True: "fst (is_armed l) \<noteq> Inr True"
  by (auto simp add: is_armed_def dest: py_first_never_bytes
      split: prod.splits sum.splits bool.splits)

lemma description_not_already_armed:
  "get_error_code_description r \<noteq> ''Laser already armed''"
  by (simp add: get_error_code_description_def)

lemma send_command_not_LaserCommandError:
  "send_command cmd l \<noteq> (Inl (LaserCommandError m), l1)"
  by (auto simp add: send_command_def Let_def encode_ascii_def split: option.splits prod.splits)

lemma py_first_not_LaserCommandError: "py_first v \<noteq> Inl (LaserCommandError m)"
  by (cases v rule: py_first.cases) simp_all

lemma marker_not_LaserCommandError:
  "first_is_marker r \<noteq> Inl (LaserCommandError m)"
  "no_response_or_marker r \<noteq> Inl (LaserCommandError m)"
  using py_first_not_LaserCommandError [of "rv r" m]
  by (auto simp add: first_is_marker_def no_response_or_marker_def split: sum.splits)

text \<open>
  In no state and for no answers of the device does \<^verbatim>\<open>arm\<close> raise its error
  "Laser already armed".
\<close>

lemma arm_never_already_armed:
  "fst (arm l) \<noteq> Inl (LaserCommandError ''Laser already armed'')"
proof -
  obtain a l1 where i: "is_armed l = (a, l1)"
    by (cases "is_armed l")
  have nt: "a \<noteq> Inr True"
    using is_armed_never_True [of l] i by simp
  have ne: "a \<noteq> Inl (LaserCommandError ''Laser already armed'')"
    using i description_not_already_armed send_command_not_LaserCommandError
      marker_not_LaserCommandError py_first_not_LaserCommandError
    by (auto simp add: is_armed_def split: prod.splits sum.splits bool.splits)
  show ?thesis
    using i nt ne description_not_already_armed send_command_not_LaserCommandError
    by (auto simp add: arm_def split: prod.splits sum.splits bool.splits)
qed

text \<open>
  C2 does not hold of the code. The device answers \<^verbatim>\<open>b"0\r"\<close> to the first \<^verbatim>\<open>EN?\<close>,
  acknowledges \<^verbatim>\<open>EN 1\<close>, answers \<^verbatim>\<open>b"1\r"\<close> (armed) to the second \<^verbatim>\<open>EN?\<close> and
  acknowledges again. Both calls of \<^verbatim>\<open>arm\<close> return \<^verbatim>\<open>True\<close>, and \<^verbatim>\<open>EN 1\<close> goes over the
  wire twice: the first element of a \<^verbatim>\<open>bytes\<close> object is an int, which never equals
  \<^verbatim>\<open>b'1'\<close>.
\<close>

theorem arm_twice_sends_enable_twice:
  "(let l0 = attach [''0'' @ [CR], ok_token, ''1'' @ [CR], ok_token] Laser_default;
        (r1, l1) = arm l0;
        (r2, l2) = arm l1
    in r1 = Inr True \<and> r2 = Inr True \<and>
       wire l2 = [frame ''EN?'', frame ''EN 1'', frame ''EN?'', frame ''EN 1''])"
  by (simp add: arm_def is_armed_def run_defs)

section \<open>Getters and the error marker\<close>

lemma strip_keeps_head: "\<not> sp c \<Longrightarrow> \<exists>t. strip sp (c # s) = c # t"
  by (simp add: strip_def dropWhile_append3)

lemma marker_char:
  "\<not> str_space (CHR ''?'')" "\<not> bytes_space (CHR ''?'')" "\<not> is_digit (CHR ''?'')"
  "to_lower (CHR ''?'') = CHR ''?''"
  by (simp_all add: str_space_def bytes_space_def is_digit_def to_lower_def)

lemma parse_int_marker: "\<not> sp (CHR ''?'') \<Longrightarrow> parse_int sp (CHR ''?'' # r) = None"
proof -
  assume "\<not> sp (CHR ''?'')"
  then obtain t where t: "strip sp (CHR ''?'' # r) = CHR ''?'' # t"
    using strip_keeps_head by blast
  show ?thesis
    by (cases "remove_underscores (CHR ''?'') t")
      (simp_all add: parse_int_def t split_sign_def marker_char)
qed

lemma parse_float_marker: "\<not> sp (CHR ''?'') \<Longrightarrow> parse_float sp (CHR ''?'' # r) = None"
proof -
  assume "\<not> sp (CHR ''?'')"
  then obtain t where t: "strip sp (CHR ''?'' # r) = CHR ''?'' # t"
    using strip_keeps_head by blast
  show ?thesis
    by (cases "remove_underscores (CHR ''?'') t")
      (simp_all add: parse_float_def t split_sign_def marker_char Let_def)
qed

lemma marker_tests:
  "first_is_marker (Some (c # r)) = Inr False"
  "no_response_or_marker (Some (c # r)) = Inr False"
  by (simp_all add: first_is_marker_def no_response_or_marker_def)

lemma parse_int_empty: "parse_int sp [] = None"
  by (simp add: parse_int_def strip_def split_sign_def)

lemma status_text_marker:
  "drop_last_decode_ascii (PBytes (CHR ''?'' # r)) = Inr decoded \<Longrightarrow>
     LaserStatusResponse_init decoded = Inl (ValueError ''int'')"
  by (cases r rule: rev_cases)
    (auto simp add: LaserStatusResponse_init_def parse_int_empty parse_int_marker marker_char
      split: if_splits)

lemma get_status_marker:
  assumes "fst (send_command ''SS?'' l) = Inr (Some (CHR ''?'' # r))"
  shows "fst (get_status l) = Inl (ValueError ''int'') \<or> fst (get_status l) = Inl UnicodeDecodeError"
proof -
  obtain l1 where a: "send_command ''SS?'' l = (Inr (Some (CHR ''?'' # r)), l1)"
    using assms by (cases "send_command ''SS?'' l") simp
  show ?thesis
  proof (cases "drop_last_decode_ascii (PBytes (CHR ''?'' # r))")
    case (Inl e)
    then have "e = UnicodeDecodeError" by (simp split: if_splits)
    with Inl a show ?thesis by (simp add: get_status_def marker_tests)
  next
    case (Inr decoded)
    with a status_text_marker [OF Inr] show ?thesis
      by (simp add: get_status_def marker_tests)
  qed
qed

lemma int_getters_marker:
  assumes "fst (send_command q l) = Inr (Some (CHR ''?'' # r))"
  shows "(q = ''PM?'' \<longrightarrow> fst (get_pulse_mode l) = Inl (ValueError ''int''))"
    and "(q = ''BC?'' \<longrightarrow> fst (get_burst_count l) = Inl (ValueError ''int''))"
    and "(q = ''DT?'' \<longrightarrow> fst (get_diode_trigger l) = Inl (ValueError ''int''))"
    and "(q = ''PE?'' \<longrightarrow> fst (get_pulse_period l) = Inl (ValueError ''float''))"
    and "(q = ''RR?'' \<longrightarrow> fst (get_repetition_rate l) = Inl (ValueError ''float''))"
    and "(q = ''DW?'' \<longrightarrow> fst (get_pulse_width l) = Inl (ValueError ''float''))"
proof -
  obtain l1 where a: "send_command q l = (Inr (Some (CHR ''?'' # r)), l1)"
    using assms by (cases "send_command q l") simp
  show "(q = ''PM?'' \<longrightarrow> fst (get_pulse_mode l) = Inl (ValueError ''int''))"
    using a by (auto simp add: get_pulse_mode_def marker_tests parse_int_marker marker_char)
  show "(q = ''BC?'' \<longrightarrow> fst (get_burst_count l) = Inl (ValueError ''int''))"
    using a by (auto simp add: get_burst_count_def marker_tests parse_int_marker marker_char)
  show "(q = ''DT?'' \<longrightarrow> fst (get_diode_trigger l) = Inl (ValueError ''int''))"
    using a by (auto simp add: get_diode_trigger_def marker_tests parse_int_marker marker_char)
  show "(q = ''PE?'' \<longrightarrow> fst (get_pulse_period l) = Inl (ValueError ''float''))"
    using a by (auto simp add: get_pulse_period_def marker_tests parse_float_marker marker_char)
  show "(q = ''RR?'' \<longrightarrow> fst (get_repetition_rate l) = Inl (ValueError ''float''))"
    using a by (auto simp add: get_repetition_rate_def marker_tests parse_float_marker marker_char)
  show "(q = ''DW?'' \<longrightarrow> fst (get_pulse_width l) = Inl (ValueError ''float''))"
    using a by (auto simp add: get_pulse_width_def marker_tests parse_float_marker marker_char)
qed

text \<open>
  C3 does not hold of the code. Whenever the response to the query of a getter begins
  with the error marker \<^verbatim>\<open>?\<close>, the getter raises \<^verbatim>\<open>ValueError\<close> (for \<^verbatim>\<open>get_status\<close>
  possibly its subclass \<^verbatim>\<open>UnicodeDecodeError\<close>), never \<^verbatim>\<open>LaserCommandError\<close>: the test
  \<^verbatim>\<open>response[0] == b"?"\<close> compares an int with a \<^verbatim>\<open>bytes\<close> object and is false, and the
  conversion of the response by \<^verbatim>\<open>int\<close> or \<^verbatim>\<open>float\<close> fails.
\<close>

theorem getters_marker_raise_ValueError:
  "(fst (send_command ''SS?'' l) = Inr (Some (CHR ''?'' # r)) \<longrightarrow>
      fst (get_status l) = Inl (ValueError ''int'') \<or> fst (get_status l) = Inl UnicodeDecodeError) \<and>
   (fst (send_command ''PM?'' l) = Inr (Some (CHR ''?'' # r)) \<longrightarrow>
      fst (get_pulse_mode l) = Inl (ValueError ''int'')) \<and>
   (fst (send_command ''PE?'' l) = Inr (Some (CHR ''?'' # r)) \<longrightarrow>
      fst (get_pulse_period l) = Inl (ValueError ''float'')) \<and>
   (fst (send_command ''RR?'' l) = Inr (Some (CHR ''?'' # r)) \<longrightarrow>
      fst (get_repetition_rate l) = Inl (ValueError ''float'')) \<and>
   (fst (send_command ''BC?'' l) = Inr (Some (CHR ''?'' # r)) \<longrightarrow>
      fst (get_burst_count l) = Inl (ValueError ''int'')) \<and>
   (fst (send_command ''DW?'' l) = Inr (Some (CHR ''?'' # r)) \<longrightarrow>
      fst (get_pulse_width l) = Inl (ValueError ''float'')) \<and>
   (fst (send_command ''DT?'' l) = Inr (Some (CHR ''?'' # r)) \<longrightarrow>
      fst (get_diode_trigger l) = Inl (ValueError ''int''))"
  using get_status_marker [of l r] int_getters_marker [of _ l r]
  by blast

text \<open>
  The seven getters on a device that answers \<^verbatim>\<open>b"?1\r\n"\<close> ("Command not recognized.").
\<close>

theorem getters_marker_raise_ValueError_witness:
  "(let l = attach [''?1'' @ [CR, LF]] Laser_default
    in fst (send_command ''SS?'' l) = Inr (Some (''?1'' @ [CR, LF])) \<and>
       fst (send_command ''PM?'' l) = Inr (Some (''?1'' @ [CR, LF])) \<and>
       fst (send_command ''PE?'' l) = Inr (Some (''?1'' @ [CR, LF])) \<and>
       fst (send_command ''RR?'' l) = Inr (Some (''?1'' @ [CR, LF])) \<and>
       fst (send_command ''BC?'' l) = Inr (Some (''?1'' @ [CR, LF])) \<and>
       fst (send_command ''DW?'' l) = Inr (Some (''?1'' @ [CR, LF])) \<and>
       fst (send_command ''DT?'' l) = Inr (Some (''?1'' @ [CR, LF])) \<and>
       (fst (get_status l) = Inl (ValueError ''int'') \<or> fst (get_status l) = Inl UnicodeDecodeError) \<and>
       fst (get_pulse_mode l) = Inl (ValueError ''int'') \<and>
       fst (get_pulse_period l) = Inl (ValueError ''float'') \<and>
       fst (get_repetition_rate l) = Inl (ValueError ''float'') \<and>
       fst (get_burst_count l) = Inl (ValueError ''int'') \<and>
       fst (get_pulse_width l) = Inl (ValueError ''float'') \<and>
       fst (get_diode_trigger l) = Inl (ValueError ''int''))"
proof -
  have s: "\<And>q. q \<noteq> [] \<Longrightarrow> list_all (\<lambda>c. (of_char c :: nat) < 128) q \<Longrightarrow>
     fst (send_command q (attach [''?1'' @ [CR, LF]] Laser_default)) = Inr (Some (CHR ''?'' # ''1'' @ [CR, LF]))"
    by (simp add: run_defs)
  show ?thesis
    unfolding Let_def
    using getters_marker_raise_ValueError [of "attach [''?1'' @ [CR, LF]] Laser_default" "''1'' @ [CR, LF]"]
      s [of "''SS?''"] s [of "''PM?''"] s [of "''PE?''"] s [of "''RR?''"] s [of "''BC?''"]
      s [of "''DW?''"] s [of "''DT?''"]
    by simp
qed

section \<open>The watchdog tick\<close>

lemma kicker_try_error:
  assumes "fst (get_status l) = Inl e"
  shows "(\<exists>e'. fst (kicker_try l) = Inl e') \<or> fst (kicker_try l) = Inr None"
proof -
  obtain l1 where g: "get_status l = (Inl e, l1)"
    using assms by (cases "get_status l") simp
  show ?thesis
  proof (cases e)
    case (LaserCommandError m)
    obtain r l2 where s: "send_command ''FL 0'' l1 = (r, l2)"
      by (cases "send_command ''FL 0'' l1")
    show ?thesis
      using g LaserCommandError s by (cases r) (simp_all add: kicker_try_def)
  qed (simp_all add: kicker_try_def g)
qed

text \<open>
  C6 does not hold of the code. Whenever the status query of a tick raises, the tick
  handler raises too: an exception other than \<^verbatim>\<open>LaserCommandError\<close> is not caught, and
  after the handler of \<^verbatim>\<open>LaserCommandError\<close> has sent the fire-stop command and stopped
  the watchdog, the next statement reads the unbound local variable \<^verbatim>\<open>status\<close>.
\<close>

theorem kicker_callback_propagates:
  assumes "fst (get_status l) = Inl e"
  shows "\<exists>e'. fst (kicker_callback l) = Inl e'"
proof -
  obtain x l1 where k: "kicker_try l = (x, l1)"
    by (cases "kicker_try l")
  from kicker_try_error [OF assms] k have "(\<exists>e'. x = Inl e') \<or> x = Inr None"
    by simp
  then show ?thesis
    using k by (auto simp add: kicker_callback_def)
qed

text \<open>
  A tick on a device that does not answer: \<^verbatim>\<open>get_status\<close> raises \<^verbatim>\<open>LaserCommandError\<close>,
  the handler writes \<^verbatim>\<open>FL 0\<close> and stops the watchdog, and \<^verbatim>\<open>UnboundLocalError\<close> leaves the
  tick handler.
\<close>

theorem kicker_callback_propagates_witness:
  "fst (get_status firing_laser) = Inl (LaserCommandError ''No response received from laser in time.'')
   \<and> (\<exists>e'. fst (kicker_callback firing_laser) = Inl e')
   \<and> fst (kicker_callback firing_laser) = Inl (UnboundLocalError ''status'')
   \<and> wire (snd (kicker_callback firing_laser)) = [frame ''SS?'', frame ''FL 0'']
   \<and> \<not> kicker_running (snd (kicker_callback firing_laser))"
proof -
  have g: "fst (get_status firing_laser) = Inl (LaserCommandError ''No response received from laser in time.'')"
    by (simp add: firing_laser_def get_status_def RepeatedTimer_start_def run_defs)
  have k: "fst (kicker_callback firing_laser) = Inl (UnboundLocalError ''status'')
     \<and> wire (snd (kicker_callback firing_laser)) = [frame ''SS?'', frame ''FL 0'']
     \<and> \<not> kicker_running (snd (kicker_callback firing_laser))"
    by (simp add: firing_laser_def kicker_callback_def kicker_try_def get_status_def
        RepeatedTimer_start_def RepeatedTimer_stop_def run_defs)
  show ?thesis
    using g k kicker_callback_propagates [OF g] by simp
qed

section \<open>The acknowledged pulse period\<close>

lemma zero_period:
  assumes "py_eq period (PInt 0)"
  shows "py_float period = Inr (Finite 0)" and "py_truediv (PInt 1) period = Inl ZeroDivisionError"
proof -
  from assms consider "period = PBool False" | "period = PInt 0" | "period = PFloat (Finite 0)"
    by (cases period; simp split: if_splits; (rename_tac f, case_tac f; simp)?)
  note c = this
  from c show "py_float period = Inr (Finite 0)"
    by cases (simp_all add: int_to_float_small)
  from c show "py_truediv (PInt 1) period = Inl ZeroDivisionError"
    by cases (simp_all add: py_truediv_def int_to_float_small)
qed

text \<open>
  C10. When the device acknowledges the command of \<^verbatim>\<open>set_pulse_period(period)\<close>, that is
  \<^verbatim>\<open>PE\<close> followed by the text \<open>t\<close> of \<^verbatim>\<open>str(period)\<close>, with the success token: if \<^verbatim>\<open>float(period)\<close> and \<^verbatim>\<open>1/period\<close> have values, the call returns
  \<^verbatim>\<open>True\<close> with \<^verbatim>\<open>pulsePeriod\<close> set to the first and \<^verbatim>\<open>repRate\<close> to the second and
  nothing else changed; if \<^verbatim>\<open>period == 0\<close>, it raises \<^verbatim>\<open>ZeroDivisionError\<close> with
  \<^verbatim>\<open>pulsePeriod\<close> already set to \<^verbatim>\<open>0.0\<close> and \<^verbatim>\<open>repRate\<close> as it was.
\<close>

theorem set_pulse_period_acknowledged:
  assumes "py_str float_str period = Inr t"
    and "send_command (''PE '' @ t) l = (Inr (Some ok_token), l1)"
  shows "(\<forall>f r. py_float period = Inr f \<and> py_truediv (PInt 1) period = Inr r \<longrightarrow>
            set_pulse_period float_str period l = (Inr True, l1\<lparr>pulsePeriod := PFloat f, repRate := r\<rparr>))
       \<and> (py_eq period (PInt 0) \<longrightarrow>
            set_pulse_period float_str period l
              = (Inl ZeroDivisionError, l1\<lparr>pulsePeriod := PFloat (Finite 0)\<rparr>))"
  using assms zero_period [of period]
  by (auto simp add: set_pulse_period_def send_and_store_def store_pulse_period_def Let_def)

text \<open>
  \<^verbatim>\<open>set_pulse_period(2)\<close> and \<^verbatim>\<open>set_pulse_period(0)\<close> on a default laser whose device
  acknowledges.
\<close>

theorem set_pulse_period_acknowledged_witness:
  "(let l = attach [ok_token] Laser_default;
        r2 = set_pulse_period (\<lambda>f. []) (PInt 2) l;
        r0 = set_pulse_period (\<lambda>f. []) (PInt 0) l
    in fst r2 = Inr True \<and> pulsePeriod (snd r2) = PFloat (Finite 2)
       \<and> repRate (snd r2) = PFloat (Finite (1 / 2)) \<and> wire (snd r2) = [frame ''PE 2'']
       \<and> py_eq (PInt 0) (PInt 0)
       \<and> fst r0 = Inl ZeroDivisionError \<and> pulsePeriod (snd r0) = PFloat (Finite 0)
       \<and> repRate (snd r0) = PInt 1 \<and> wire (snd r0) = [frame ''PE 0''])"
proof -
  let ?l = "attach [ok_token] Laser_default"
  let ?l1 = "\<lambda>cmd. ?l\<lparr>ser := Some \<lparr>written = [frame cmd], pending = []\<rparr>\<rparr>"
  have s2: "py_str (\<lambda>f. []) (PInt 2) = Inr ''2''"
    by (simp add: int_str_def digit_char_def max_str_digits_def)
  have s0: "py_str (\<lambda>f. []) (PInt 0) = Inr ''0''"
    by (simp add: int_str_def digit_char_def max_str_digits_def)
  have h2: "send_command (''PE '' @ ''2'') ?l = (Inr (Some ok_token), ?l1 ''PE 2'')"
    by (simp add: run_defs)
  have h0: "send_command (''PE '' @ ''0'') ?l = (Inr (Some ok_token), ?l1 ''PE 0'')"
    by (simp add: run_defs)
  have f2: "py_float (PInt 2) = Inr (Finite 2) \<and> py_truediv (PInt 1) (PInt 2) = Inr (PFloat (Finite (1 / 2)))"
    by (simp add: int_to_float_small py_truediv_def round_small)
  have z: "py_eq (PInt 0) (PInt 0)"
    by simp
  show ?thesis
    using set_pulse_period_acknowledged [OF s2 h2] set_pulse_period_acknowledged [OF s0 h0] f2 z
    by (simp add: Let_def wire_def attach_def Laser_default_def Laser_init_def)
qed

section \<open>Validation in the setters\<close>

lemma set_pulse_mode_rejects:
  "\<not> rule_pulse_mode v \<Longrightarrow> set_pulse_mode fs v l =
     (Inl (ValueError ''Invalid value for pulse mode! 0, 1, or 2 are accepted values.''), l)"
  by (cases v) (auto simp add: set_pulse_mode_def rule_pulse_mode_def)

lemma set_diode_trigger_rejects:
  "\<not> rule_diode_trigger v \<Longrightarrow> set_diode_trigger fs v l =
     (Inl (ValueError ''Invalid value for trigger mode! 0 or 1 are accepted values.''), l)"
  by (cases v) (auto simp add: set_diode_trigger_def rule_diode_trigger_def)

lemma set_pulse_width_rejects:
  assumes "\<not> rule_pulse_width v" "v \<noteq> PFloat NaN"
  shows "set_pulse_width fs v l =
     (Inl (ValueError ''Pulse width must be a positive, non-zero number value (no strings)!''), l)"
proof (cases v)
  case (PInt i)
  with assms show ?thesis
    by (auto simp add: set_pulse_width_def py_le_def py_cmp_def float_le_simps)
next
  case (PFloat f)
  with assms show ?thesis
    by (cases f) (auto simp add: set_pulse_width_def py_le_def py_cmp_def float_le_simps)
qed (simp_all add: set_pulse_width_def)

lemma set_burst_count_rejects:
  assumes "\<not> rule_burst_count v"
  shows "set_burst_count fs v l =
     (if as_num v = None then Inl (TypeError ''comparison'')
      else Inl (ValueError ''Burst count must be a positive, non-zero integer!''), l)"
proof (cases v)
  case (PInt i)
  with assms show ?thesis
    by (auto simp add: set_burst_count_def py_le_def py_cmp_def float_le_simps)
qed (simp_all add: set_burst_count_def py_le_def py_cmp_def)

lemma set_repetition_rate_rejects:
  assumes "\<not> rule_repetition_rate v" "v \<noteq> PFloat NaN"
  shows "set_repetition_rate fs v l =
     (Inl (ValueError ''Laser repetition rate must be a positive number from 1 to 5!''), l)"
proof (cases v)
  case (PInt i)
  with assms show ?thesis
    by (auto simp add: set_repetition_rate_def py_lt_def py_gt_def py_cmp_def float_le_simps)
next
  case (PFloat f)
  with assms show ?thesis
    by (cases f) (auto simp add: set_repetition_rate_def py_lt_def py_gt_def py_cmp_def float_le_simps)
qed (simp_all add: set_repetition_rate_def)

lemma set_burst_count_raises:
  "\<not> rule_burst_count v \<Longrightarrow> \<exists>e. set_burst_count fs v l = (Inl e, l)"
  by (simp add: set_burst_count_rejects)

lemma set_burst_count_rejects_number:
  "\<not> rule_burst_count v \<Longrightarrow> as_num v \<noteq> None \<Longrightarrow> set_burst_count fs v l =
     (Inl (ValueError ''Burst count must be a positive, non-zero integer!''), l)"
  by (simp add: set_burst_count_rejects)

lemma store_pulse_period_ser: "ser (snd (store_pulse_period p l)) = ser l"
  by (auto simp add: store_pulse_period_def Let_def split: sum.splits)

lemma send_and_store_wire:
  assumes "\<And>l'. ser (snd (store l')) = ser l'"
  shows "wire (snd (send_and_store cmd store l)) = wire (snd (send_command cmd l))"
proof -
  obtain r l1 where s: "send_command cmd l = (r, l1)"
    by (cases "send_command cmd l")
  obtain u l2 where t: "store l1 = (u, l2)"
    by (cases "store l1")
  have "ser l2 = ser l1"
    using assms [of l1] t by simp
  then show ?thesis
    using s t by (cases r; cases u) (simp_all add: send_and_store_def wire_def)
qed

lemma set_pulse_period_writes:
  assumes "connected l" "ser l = Some s" "device_address l = ''LA''" "py_str fs v = Inr t"
    and "list_all (\<lambda>c. (of_char c :: nat) < 128) t"
  shows "wire (snd (set_pulse_period fs v l)) = written s @ [frame (''PE '' @ t)]"
proof -
  have "send_command (''PE '' @ t) l =
     (Inr (Some (case pending s of [] \<Rightarrow> [] | r # rs \<Rightarrow> r)),
      l\<lparr>ser := Some (s\<lparr>written := written s @ [frame (''PE '' @ t)], pending := tl (pending s)\<rparr>)\<rparr>)"
    using send_command_connected [OF assms(1-3), of "''PE '' @ t"] assms(5) by simp
  then have "wire (snd (send_command (''PE '' @ t) l)) = written s @ [frame (''PE '' @ t)]"
    by (simp add: wire_def)
  then show ?thesis
    using send_and_store_wire [of "store_pulse_period v" "''PE '' @ t" l] assms(4)
    by (simp add: set_pulse_period_def store_pulse_period_ser)
qed

text \<open>
  C4, amended. For the five setters that validate, an argument that breaks the rule of
  the specification (a NaN apart, for the pulse width and the repetition rate) makes the
  setter raise and return the object unchanged, so that nothing is written to the port.
  The error is the \<^verbatim>\<open>ValueError\<close> of the setter; for \<^verbatim>\<open>set_burst_count\<close> this is stated
  for the arguments that are numbers, and for the others only that it raises.
  \<^verbatim>\<open>set_pulse_period\<close> validates nothing: on a connected laser, whenever \<^verbatim>\<open>str(period)\<close>
  has a value \<open>t\<close> and \<open>t\<close> is ASCII, it writes the command \<^verbatim>\<open>PE\<close> with \<open>t\<close> to the port.
\<close>

theorem setters_reject_before_io:
  "(\<not> rule_pulse_mode v \<longrightarrow> set_pulse_mode fs v l =
      (Inl (ValueError ''Invalid value for pulse mode! 0, 1, or 2 are accepted values.''), l))
   \<and> (\<not> rule_diode_trigger v \<longrightarrow> set_diode_trigger fs v l =
      (Inl (ValueError ''Invalid value for trigger mode! 0 or 1 are accepted values.''), l))
   \<and> (\<not> rule_pulse_width v \<and> v \<noteq> PFloat NaN \<longrightarrow> set_pulse_width fs v l =
      (Inl (ValueError ''Pulse width must be a positive, non-zero number value (no strings)!''), l))
   \<and> (\<not> rule_burst_count v \<longrightarrow>
        (\<exists>e. set_burst_count fs v l = (Inl e, l)) \<and>
        (as_num v \<noteq> None \<longrightarrow> set_burst_count fs v l =
           (Inl (ValueError ''Burst count must be a positive, non-zero integer!''), l)))
   \<and> (\<not> rule_repetition_rate v \<and> v \<noteq> PFloat NaN \<longrightarrow> set_repetition_rate fs v l =
      (Inl (ValueError ''Laser repetition rate must be a positive number from 1 to 5!''), l))
   \<and> (connected l \<and> ser l = Some s \<and> device_address l = ''LA'' \<and> py_str fs v = Inr t
        \<and> list_all (\<lambda>c. (of_char c :: nat) < 128) t \<longrightarrow>
        wire (snd (set_pulse_period fs v l)) = written s @ [frame (''PE '' @ t)])"
  using set_pulse_mode_rejects [of v fs l] set_diode_trigger_rejects [of v fs l]
    set_pulse_width_rejects [of v fs l] set_burst_count_raises [of v fs l]
    set_burst_count_rejects_number [of v fs l] set_repetition_rate_rejects [of v fs l]
    set_pulse_period_writes [of l s fs v t]
  by blast

text \<open>
  The argument \<open>-5\<close> breaks all five rules, and each of the five setters rejects it with
  its \<^verbatim>\<open>ValueError\<close> on an attached laser whose wire is empty; \<^verbatim>\<open>set_pulse_period(-5)\<close>
  writes \<^verbatim>\<open>PE -5\<close>.
\<close>

theorem setters_reject_before_io_witness:
  "(let v = PInt (- 5); l = attach [ok_token] Laser_default
    in \<not> rule_pulse_mode v \<and> \<not> rule_diode_trigger v \<and> \<not> rule_pulse_width v
       \<and> \<not> rule_burst_count v \<and> \<not> rule_repetition_rate v \<and> v \<noteq> PFloat NaN
       \<and> set_pulse_mode (\<lambda>f. []) v l =
           (Inl (ValueError ''Invalid value for pulse mode! 0, 1, or 2 are accepted values.''), l)
       \<and> set_diode_trigger (\<lambda>f. []) v l =
           (Inl (ValueError ''Invalid value for trigger mode! 0 or 1 are accepted values.''), l)
       \<and> set_pulse_width (\<lambda>f. []) v l =
           (Inl (ValueError ''Pulse width must be a positive, non-zero number value (no strings)!''), l)
       \<and> set_burst_count (\<lambda>f. []) v l =
           (Inl (ValueError ''Burst count must be a positive, non-zero integer!''), l)
       \<and> set_repetition_rate (\<lambda>f. []) v l =
           (Inl (ValueError ''Laser repetition rate must be a positive number from 1 to 5!''), l)
       \<and> wire l = []
       \<and> connected l \<and> device_address l = ''LA''
       \<and> ser l = Some \<lparr>written = [], pending = [ok_token]\<rparr>
       \<and> py_str (\<lambda>f. []) v = Inr ''-5''
       \<and> wire (snd (set_pulse_period (\<lambda>f. []) v l)) = [frame ''PE -5''])"
proof -
  have s: "py_str (\<lambda>f. []) (PInt (- 5)) = Inr ''-5''"
    by (simp add: int_str_def digit_char_def max_str_digits_def)
  show ?thesis
    using s setters_reject_before_io [of "PInt (- 5)" "\<lambda>f. []" "attach [ok_token] Laser_default"
        "\<lparr>written = [], pending = [ok_token]\<rparr>" "''-5''"]
    by (simp add: Let_def rule_pulse_mode_def rule_diode_trigger_def wire_def attach_def
        Laser_default_def Laser_init_def)
qed

text \<open>
  C4, as stated, fails for \<^verbatim>\<open>set_pulse_period\<close>, which has no validation (its rules are
  a TODO in the source): \<^verbatim>\<open>set_pulse_period("abc")\<close>, against the documented type of a
  float, writes \<^verbatim>\<open>;LA:PE abc\<close> to the port, and the error raised is the rejection of
  the device.
\<close>

theorem set_pulse_period_unvalidated_counterexample:
  "(let l = attach [''?5'' @ [CR, LF]] Laser_default;
        r = set_pulse_period (\<lambda>f. []) (PStr ''abc'') l
    in fst r = Inl (LaserCommandError ''Invalid Parameter'')
       \<and> wire l = [] \<and> wire (snd r) = [frame ''PE abc''])"
  by (simp add: set_pulse_period_def send_and_store_def run_defs)

text \<open>
  Why NaN is set apart: \<^verbatim>\<open>nan <= 0\<close> is false, so \<^verbatim>\<open>set_pulse_width(float("nan"))\<close>
  passes the check although NaN is not \<open>> 0\<close>.
\<close>

lemma nan_passes_validation:
  "(let l = attach [ok_token] Laser_default;
        r = set_pulse_width (\<lambda>f. ''nan'') (PFloat NaN) l
    in \<not> rule_pulse_width (PFloat NaN) \<and> fst r = Inr True \<and> wire (snd r) = [frame ''DW nan''])"
  by (simp add: set_pulse_width_def send_and_store_def py_le_def py_cmp_def float_le_def run_defs)

section \<open>Abort of a rejected fire command\<close>

lemma get_status_state: "snd (get_status l) = snd (send_command ''SS?'' l)"
  by (auto simp add: get_status_def split: prod.splits sum.splits bool.splits)

lemma py_truediv_float: "py_truediv a b = Inr fd \<Longrightarrow> \<exists>f. fd = PFloat f"
  by (auto simp add: py_truediv_def
      split: if_splits option.splits pynum.splits sum.splits pyfloat.splits)

lemma compute_fire_duration_float: "compute_fire_duration l = Inr fd \<Longrightarrow> \<exists>f. fd = PFloat f"
  by (auto simp add: compute_fire_duration_def dest: py_truediv_float split: if_splits)

lemma compute_fire_duration_ser [simp]:
  "compute_fire_duration (l\<lparr>ser := x\<rparr>) = compute_fire_duration l"
  by (simp add: compute_fire_duration_def)

text \<open>
  C5, amended. On a connected laser whose status query succeeds with the laser enabled and
  ready, when the answer to \<^verbatim>\<open>FL 1\<close> is not the success token, \<^verbatim>\<open>fire\<close> writes \<^verbatim>\<open>FL 0\<close>
  right after \<^verbatim>\<open>FL 1\<close> and raises \<^verbatim>\<open>LaserCommandError\<close> with the description of that
  answer. The watchdog is not stopped on this path: when \<^verbatim>\<open>fire\<close> raises, the watchdog
  runs if it ran before or if \<^verbatim>\<open>fire\<close> started it because the duration is at least 3
  seconds.
\<close>

theorem fire_abort:
  assumes conn: "connected l" "ser l = Some s" "device_address l = ''LA''"
    and pend: "pending s = r1 # r2 # rest"
    and st: "fst (get_status l) = Inr status" "laser_enabled status" "ready_to_fire status"
    and fd: "compute_fire_duration l = Inr fd"
    and nack: "r2 \<noteq> ok_token"
  shows "fst (fire l) = Inl (LaserCommandError (get_error_code_description (Some r2)))
       \<and> wire (snd (fire l)) = written s @ [frame ''SS?'', frame ''FL 1'', frame ''FL 0'']
       \<and> kicker_running (snd (fire l)) = (kicker_running l \<or> py_ge fd (PInt 3) = Inr True)"
proof -
  define s1 where "s1 = s\<lparr>written := written s @ [frame ''SS?''], pending := r2 # rest\<rparr>"
  define l1 where "l1 = l\<lparr>ser := Some s1\<rparr>"
  have "send_command ''SS?'' l = (Inr (Some r1), l1)"
    using send_command_connected [OF conn, of "''SS?''"] pend by (simp add: l1_def s1_def)
  then have "snd (get_status l) = l1"
    by (simp add: get_status_state)
  with st(1) have gs: "get_status l = (Inr status, l1)"
    by (cases "get_status l") simp
  have fd1: "compute_fire_duration l1 = Inr fd"
    using fd by (simp add: l1_def)
  obtain f where f: "fd = PFloat f"
    using compute_fire_duration_float [OF fd] by blast
  define long where "long = float_le (Finite 3) f"
  have ge: "py_ge fd (PInt 3) = Inr long"
    by (simp add: f py_ge_def py_cmp_def long_def)
  define l3 where "l3 = (if long then RepeatedTimer_start (l1\<lparr>fire_duration := Some fd\<rparr>)
     else l1\<lparr>fire_duration := Some fd\<rparr>)"
  have c3: "connected l3" "ser l3 = Some s1" "device_address l3 = ''LA''"
    using conn by (simp_all add: l3_def l1_def RepeatedTimer_start_def)
  define s4 where "s4 = s1\<lparr>written := written s1 @ [frame ''FL 1''], pending := rest\<rparr>"
  define l4 where "l4 = l3\<lparr>ser := Some s4\<rparr>"
  have f1: "send_command ''FL 1'' l3 = (Inr (Some r2), l4)"
    using send_command_connected [OF c3, of "''FL 1''"] by (simp add: l4_def s4_def s1_def)
  have c4: "connected l4" "ser l4 = Some s4" "device_address l4 = ''LA''"
    using c3 by (simp_all add: l4_def)
  define s5 where "s5 = s4\<lparr>written := written s4 @ [frame ''FL 0''], pending := tl rest\<rparr>"
  define l5 where "l5 = l4\<lparr>ser := Some s5\<rparr>"
  obtain r3 where f0: "send_command ''FL 0'' l4 = (Inr r3, l5)"
    using send_command_connected [OF c4, of "''FL 0''"] by (simp add: l5_def s5_def s4_def)
  have res: "fire l = (Inl (LaserCommandError (get_error_code_description (Some r2))), l5)"
    using gs fd1 st(2,3) ge f1 f0 nack
    by (simp add: fire_def Let_def l3_def [symmetric])
  have w: "wire l5 = written s @ [frame ''SS?'', frame ''FL 1'', frame ''FL 0'']"
    by (simp add: wire_def l5_def s5_def s4_def s1_def)
  have k: "kicker_running l5 = (kicker_running l \<or> long)"
    by (auto simp add: l5_def l4_def l3_def l1_def RepeatedTimer_start_def)
  show ?thesis
    using res w k ge by simp
qed

lemma burst_duration: "compute_fire_duration burst_laser = Inr (PFloat (Finite 10))"
  by (simp add: burst_laser_def compute_fire_duration_def py_truediv_def round_small attach_def
      Laser_init_def)

lemma burst_status:
  "fst (get_status burst_laser) = Inr \<lparr>laser_enabled = True, laser_active = True,
     diode_external_trigger = False, external_interlock = False, resonator_over_temp = False,
     electrical_over_temp = False, power_failure = False, ready_to_enable = True,
     ready_to_fire = True, low_power_mode = False, high_power_mode = False\<rparr>"
  by (simp add: burst_laser_def get_status_def LaserStatusResponse_init_def parse_int_def
      strip_def str_space_def split_sign_def is_digit_def digit_val_def max_str_digits_def bool_and_def run_defs)

text \<open>
  C5, as stated, fails: in the burst firing of 10 seconds the watchdog, not running
  before, is started by \<^verbatim>\<open>fire\<close>; the device rejects \<^verbatim>\<open>FL 1\<close>; \<^verbatim>\<open>fire\<close> sends \<^verbatim>\<open>FL 0\<close>
  and raises, and the watchdog is still running.
\<close>

theorem fire_abort_counterexample:
  "compute_fire_duration burst_laser = Inr (PFloat (Finite 10))
   \<and> py_ge (PFloat (Finite 10)) (PInt 3) = Inr True
   \<and> \<not> kicker_running burst_laser
   \<and> fst (fire burst_laser) = Inl (LaserCommandError ''Command unavailable in current system state.'')
   \<and> wire (snd (fire burst_laser)) = [frame ''SS?'', frame ''FL 1'', frame ''FL 0'']
   \<and> kicker_running (snd (fire burst_laser))"
  by (simp add: fire_def get_status_def compute_fire_duration_def py_truediv_def round_small py_ge_def
      py_cmp_def float_le_def LaserStatusResponse_init_def parse_int_def strip_def str_space_def
      split_sign_def is_digit_def digit_val_def max_str_digits_def bool_and_def RepeatedTimer_start_def
      burst_laser_def run_defs)

text \<open>
  The same run satisfies the hypotheses of the amended statement.
\<close>

theorem fire_abort_witness:
  "connected burst_laser \<and> device_address burst_laser = ''LA''
   \<and> ser burst_laser = Some \<lparr>written = [], pending = [''3075'' @ [CR], ''?8'' @ [CR, LF], ok_token]\<rparr>
   \<and> ''?8'' @ [CR, LF] \<noteq> ok_token
   \<and> compute_fire_duration burst_laser = Inr (PFloat (Finite 10))
   \<and> fst (fire burst_laser) = Inl (LaserCommandError ''Command unavailable in current system state.'')
   \<and> wire (snd (fire burst_laser)) = [frame ''SS?'', frame ''FL 1'', frame ''FL 0'']
   \<and> kicker_running (snd (fire burst_laser))"
proof -
  have c: "connected burst_laser"
    "ser burst_laser = Some \<lparr>written = [], pending = [''3075'' @ [CR], ''?8'' @ [CR, LF], ok_token]\<rparr>"
    "device_address burst_laser = ''LA''"
    by (simp_all add: burst_laser_def attach_def Laser_init_def)
  have p: "pending \<lparr>written = [], pending = [''3075'' @ [CR], ''?8'' @ [CR, LF], ok_token]\<rparr>
      = (''3075'' @ [CR]) # (''?8'' @ [CR, LF]) # [ok_token]"
    by simp
  have n: "''?8'' @ [CR, LF] \<noteq> ok_token"
    by (simp add: ok_token_def)
  have g: "py_ge (PFloat (Finite 10)) (PInt 3) = Inr True"
    by (simp add: py_ge_def py_cmp_def float_le_def)
  have d: "get_error_code_description (Some (''?8'' @ [CR, LF])) = ''Command unavailable in current system state.''"
    by (simp add: get_error_code_description_def CR_def LF_def)
  show ?thesis
    using fire_abort [OF c p burst_status _ _ burst_duration n] c n burst_duration g d
    by simp
qed

end
